theory Spec2Isabelle
  imports Main
begin

section \<open>ImageMaker: a shallow embedding of ImageMaker.cxx\<close>

text \<open>
  The program parses its command line, selects one instantiation of the image builder
  from the dimension, the scalar type tag and the number of components, builds a
  uniformly filled image with the requested geometry and hands it to an ITK file writer.

  The embedding follows the three functions of the source: \<open>main\<close>, the dispatcher
  \<open>DoIt<D>\<close> (here \<open>DoIt_D\<close>) and the builder \<open>DoIt<OutputImageType, OutputScalarType>\<close>
  (here \<open>make_image\<close>, lines 150 to 207, followed by \<open>DoIt_image\<close>, lines 209 to 218).
  ITK itself is not part of the repository. The calls the builder makes on an image are
  modelled from what the spec says of the image (sections 3 and 4.2: a region of the
  requested size with a zero start index, one buffer of components-per-pixel times the
  number of pixels scalars, the components of a pixel adjacent, a fill that replicates one
  pixel everywhere), and whatever the library decides on its own (which tags it
  recognises, how a fill value is converted to the pixel's scalar type, what a freshly
  allocated buffer holds, whether a call throws, what the writer leaves on disk) is a
  field of the record \<open>itk\<close> that every function takes as its first argument.
\<close>

subsection \<open>Abnormal ends\<close>

text \<open>
  A C++ exception is either an \<open>itk::ExceptionObject\<close> (or a class derived from it), which
  the handler of \<open>main\<close> catches, or an object of any other type, which it does not.
  Reading a \<open>std::vector\<close> with \<open>operator[]\<close> past its end, writing past the end of the
  pixel buffer and taking a remainder by zero are undefined behaviour: they are not
  exceptions and nothing catches them.
\<close>

datatype exception = ExceptionObject string | OtherException string

datatype undefined_behaviour = OutOfRange | DivisionByZero

datatype abnormal = Undefined undefined_behaviour | Throw exception

definition andThen :: "abnormal + 'a \<Rightarrow> ('a \<Rightarrow> abnormal + 'b) \<Rightarrow> abnormal + 'b" where
  "andThen m f = (case m of Inl e \<Rightarrow> Inl e | Inr x \<Rightarrow> f x)"

definition EXIT_SUCCESS :: int where
  "EXIT_SUCCESS = 0"

definition EXIT_FAILURE :: int where
  "EXIT_FAILURE = 1"

subsection \<open>The parsed command line\<close>

text \<open>
  \<open>PARSE_ARGS\<close> (generated into ImageMakerCLP.h, which is not in the repository) turns
  \<open>argv\<close> into the variables the source reads. The record holds exactly those variables;
  \<open>'r\<close> is the element type of \<open>FillValue\<close> and \<open>'d\<close> the element type of the three
  geometry vectors. Both \<open>main\<close> and the builder run \<open>PARSE_ARGS\<close> on the same \<open>argv\<close>, so
  both read the same record.
\<close>

record ('r, 'd) arguments =
  argv0 :: string
  Dimension :: int
  NumberOfComponents :: int
  ScalarType :: string
  Size :: "int list"
  Spacing :: "'d list"
  Origin :: "'d list"
  Direction :: "'d list"
  FillValue :: "'r list"
  OutputVolume :: string

subsection \<open>Pixel representations and images\<close>

text \<open>
  The enumerators of \<open>itk::ImageIOBase::IOComponentType\<close> that the switch of \<open>DoIt<D>\<close>
  names; \<open>OTHERCOMPONENTTYPE\<close> stands for any enumerator it does not name, which the
  \<open>default\<close> label receives. The enumerators \<open>CHAR\<close> and \<open>INT\<close> are
  written \<open>CHAR'\<close> and \<open>INT'\<close>, since the two words are reserved syntax of HOL.
\<close>

datatype IOComponentType =
  UNKNOWNCOMPONENTTYPE | UCHAR | CHAR' | USHORT | SHORT | UINT | INT' | ULONG | LONG
  | FLOAT | DOUBLE | OTHERCOMPONENTTYPE

datatype ImageClass = Image | VectorImage

text \<open>
  One template instantiation \<open>DoIt<itk::Image<T, D>, T>\<close> or
  \<open>DoIt<itk::VectorImage<T, D>, T>\<close>: the image class, the scalar type \<open>T\<close> and \<open>D\<close>.
\<close>

record PixelRepresentation =
  image_class :: ImageClass
  component_type :: IOComponentType
  ImageDimension :: nat

text \<open>
  An image object: its representation, the vector length of an \<open>itk::VectorImage\<close>, the
  region (start index and size per axis), the pixel buffer as one list of scalars (the
  components of a pixel are adjacent), and the physical metadata.
\<close>

record ('s, 'd) itk_image =
  representation :: PixelRepresentation
  VectorLength :: nat
  region_index :: "int list"
  region_size :: "nat list"
  buffer :: "'s list"
  spacing :: "'d list"
  origin :: "'d list"
  direction :: "'d list list"

text \<open>
  What \<open>writer->Update()\<close> does, seen from the program: the lines the
  \<open>PluginFilterWatcher\<close> prints on standard output, the bytes left at the file name
  (\<open>None\<close> when no file was created) and the exception thrown, if any.
\<close>

record write_result =
  progress :: "string list"
  written :: "string option"
  thrown :: "exception option"

text \<open>
  What ITK decides on its own, taken as parameters: the table from scalar type tags to
  enumerators; the conversion of a fill value (of type \<open>'r\<close>) to a scalar of the pixel
  type (of type \<open>'s\<close>), by the scalar type of the instantiation; the content of a
  freshly allocated buffer, by position; whether an allocation of so many scalars, a
  spacing or a direction makes the library throw; and the writer.
\<close>

record ('r, 's, 'd) itk =
  GetComponentTypeFromString :: "string \<Rightarrow> IOComponentType"
  convert :: "IOComponentType \<Rightarrow> 'r \<Rightarrow> 's"
  fresh :: "nat \<Rightarrow> 's"
  Allocate_throws :: "nat \<Rightarrow> exception option"
  SetSpacing_throws :: "'d list \<Rightarrow> exception option"
  SetDirection_throws :: "'d list list \<Rightarrow> exception option"
  Update :: "('s, 'd) itk_image \<Rightarrow> string \<Rightarrow> write_result"

text \<open>The streams and the file system the process writes to.\<close>

record world =
  cout :: "string list"
  cerr :: "string list"
  files :: "string \<rightharpoonup> string"

subsection \<open>ITK calls of the builder\<close>

text \<open>
  Modelled from the spec: \<open>OutputImageType::New()\<close> of ITK, which is not in the
  repository. It gives an empty image: no pixels, unit spacing, zero origin, identity
  direction, and vector length 0 for an \<open>itk::VectorImage\<close>. Every field but the vector
  length of a scalar image is overwritten before the image is used.
\<close>

definition New :: "PixelRepresentation \<Rightarrow> ('s, 'd :: {zero, one}) itk_image" where
  "New rep =
     (let D = ImageDimension rep in
      \<lparr>representation = rep, VectorLength = 0,
       region_index = replicate D 0, region_size = replicate D 0, buffer = [],
       spacing = replicate D 1, origin = replicate D 0,
       direction = map (\<lambda>r. map (\<lambda>c. if r = c then 1 else 0) [0..<D]) [0..<D]\<rparr>)"

text \<open>
  Modelled from the spec: \<open>GetNumberOfComponentsPerPixel\<close> of the ITK image classes, which
  are not in the repository. A scalar-pixel image (\<open>itk::Image\<close>) has one component per
  pixel; a vector-pixel image (\<open>itk::VectorImage\<close>) has the fixed number of components per
  spatial location it was configured for.
\<close>

definition GetNumberOfComponentsPerPixel :: "('s, 'd) itk_image \<Rightarrow> nat" where
  "GetNumberOfComponentsPerPixel img =
     (case image_class (representation img) of
        Image \<Rightarrow> 1
      | VectorImage \<Rightarrow> VectorLength img)"

text \<open>
  Modelled from the spec: \<open>SetNumberOfComponentsPerPixel\<close> of the ITK image classes. It
  configures a vector-pixel image for that many components per spatial location, and does
  nothing on a scalar-pixel image.
\<close>

definition SetNumberOfComponentsPerPixel ::
    "nat \<Rightarrow> ('s, 'd) itk_image \<Rightarrow> ('s, 'd) itk_image" where
  "SetNumberOfComponentsPerPixel n img =
     (case image_class (representation img) of
        Image \<Rightarrow> img
      | VectorImage \<Rightarrow> img\<lparr>VectorLength := n\<rparr>)"

text \<open>
  Modelled from the spec: \<open>image->SetRegions(region)\<close> of ITK, which gives the image the
  start index and the size of the region.
\<close>

definition SetRegions ::
    "int list \<Rightarrow> nat list \<Rightarrow> ('s, 'd) itk_image \<Rightarrow> ('s, 'd) itk_image" where
  "SetRegions start sz img = img\<lparr>region_index := start, region_size := sz\<rparr>"

text \<open>
  Modelled from the spec: the number of pixels of the region of an ITK image, the product
  of its sizes along the axes. The product is exact here; ITK computes it in
  \<open>SizeValueType\<close>.
\<close>

definition GetNumberOfPixels :: "('s, 'd) itk_image \<Rightarrow> nat" where
  "GetNumberOfPixels img = prod_list (region_size img)"

text \<open>
  Modelled from the spec: \<open>image->Allocate()\<close>. It reserves one scalar per component of
  every pixel of the region and does not initialise them; a failure to allocate surfaces
  as an exception. In ITK a vector image of vector length 0 refuses to allocate; the
  dispatcher never asks for one.
\<close>

definition Allocate ::
    "('r, 's, 'd) itk \<Rightarrow> ('s, 'd) itk_image \<Rightarrow> abnormal + ('s, 'd) itk_image" where
  "Allocate lib img =
     (let n = GetNumberOfPixels img * GetNumberOfComponentsPerPixel img in
      if image_class (representation img) = VectorImage \<and> VectorLength img = 0
      then Inl (Throw (ExceptionObject ''Cannot allocate since the VectorLength is 0''))
      else case Allocate_throws lib n of
             Some e \<Rightarrow> Inl (Throw e)
           | None \<Rightarrow> Inr (img\<lparr>buffer := map (fresh lib) [0..<n]\<rparr>))"

text \<open>
  Modelled from the spec: \<open>image->SetSpacing(spacing)\<close> of ITK. It stores what it is
  given; whether ITK rejects a spacing is left to the library record.
\<close>

definition SetSpacing ::
    "('r, 's, 'd) itk \<Rightarrow> 'd list \<Rightarrow> ('s, 'd) itk_image \<Rightarrow> abnormal + ('s, 'd) itk_image" where
  "SetSpacing lib sp img =
     (case SetSpacing_throws lib sp of
        Some e \<Rightarrow> Inl (Throw e)
      | None \<Rightarrow> Inr (img\<lparr>spacing := sp\<rparr>))"

text \<open>Modelled from the spec: \<open>image->SetOrigin(origin)\<close> of ITK, which stores the origin.\<close>

definition SetOrigin :: "'d list \<Rightarrow> ('s, 'd) itk_image \<Rightarrow> ('s, 'd) itk_image" where
  "SetOrigin orig img = img\<lparr>origin := orig\<rparr>"

text \<open>
  Modelled from the spec: \<open>image->SetDirection(direction)\<close> of ITK. It stores the matrix;
  whether ITK rejects a matrix is left to the library record.
\<close>

definition SetDirection ::
    "('r, 's, 'd) itk \<Rightarrow> 'd list list \<Rightarrow> ('s, 'd) itk_image \<Rightarrow> abnormal + ('s, 'd) itk_image" where
  "SetDirection lib dir img =
     (case SetDirection_throws lib dir of
        Some e \<Rightarrow> Inl (Throw e)
      | None \<Rightarrow> Inr (img\<lparr>direction := dir\<rparr>))"

text \<open>
  Modelled from the spec: the offset of a pixel in the buffer, ITK's \<open>ComputeOffset\<close>. It
  is the index relative to the start of the region, the first axis running fastest. The
  builder asks for the zero index only, whose offset is 0.
\<close>

fun ComputeOffset :: "int list \<Rightarrow> nat list \<Rightarrow> int list \<Rightarrow> int" where
  "ComputeOffset (s # ss) (n # ns) (i # is) = (i - s) + int n * ComputeOffset ss ns is"
| "ComputeOffset _ _ _ = 0"

text \<open>
  Modelled from the spec: \<open>image->GetPixel(index)\<close>, the components of the pixel at the
  index. ITK performs no bounds check: a pixel that does not lie inside the buffer is an
  out-of-range access.
\<close>

definition GetPixel :: "('s, 'd) itk_image \<Rightarrow> int list \<Rightarrow> abnormal + 's list" where
  "GetPixel img idx =
     (let off = ComputeOffset (region_index img) (region_size img) idx;
          n = GetNumberOfComponentsPerPixel img
      in if 0 \<le> off \<and> nat off * n + n \<le> length (buffer img)
         then Inr (take n (drop (nat off * n) (buffer img)))
         else Inl (Undefined OutOfRange))"

text \<open>
  Modelled from the spec: \<open>image->FillBuffer(value)\<close> of ITK, which stores the value at
  every pixel of the region. In the source the value is the pixel at the zero index
  itself, not a copy; storing it at the zero index first changes nothing.
\<close>

definition FillBuffer :: "'s list \<Rightarrow> ('s, 'd) itk_image \<Rightarrow> ('s, 'd) itk_image" where
  "FillBuffer px img = img\<lparr>buffer := concat (replicate (GetNumberOfPixels img) px)\<rparr>"

subsection \<open>Loops and vector accesses of the source\<close>

text \<open>\<open>v[i]\<close> on a \<open>std::vector\<close>: unchecked.\<close>

definition vector_at :: "'a list \<Rightarrow> nat \<Rightarrow> abnormal + 'a" where
  "vector_at v i = (if i < length v then Inr (v ! i) else Inl (Undefined OutOfRange))"

text \<open>
  \<open>for (i = first; i < first + count; ++i) body\<close>, the state threaded through the body;
  an abnormal end of the body ends the loop.
\<close>

primrec for_loop ::
    "nat \<Rightarrow> nat \<Rightarrow> (nat \<Rightarrow> 'st \<Rightarrow> abnormal + 'st) \<Rightarrow> 'st \<Rightarrow> abnormal + 'st" where
  "for_loop i 0 body st = Inr st"
| "for_loop i (Suc n) body st =
     (case body i st of
        Inl e \<Rightarrow> Inl e
      | Inr st' \<Rightarrow> for_loop (Suc i) n body st')"

text \<open>
  Line 159, \<open>size[i] = Size[i]\<close>: the conversion of an \<open>int\<close> to ITK's \<open>SizeValueType\<close>
  (\<open>unsigned long\<close>, taken as 64 bits wide). A negative value wraps around.
\<close>

definition SizeValueType_of_int :: "int \<Rightarrow> nat" where
  "SizeValueType_of_int v = nat (v mod 2 ^ 64)"

text \<open>
  Lines 156 to 160, 172 to 176 and 179 to 183: entry \<open>i\<close> of a local array of \<open>D\<close> entries
  receives entry \<open>i\<close> of a parsed vector, for \<open>i\<close> from 0 to \<open>D - 1\<close> in this order. The
  state of the loop is the part of the array written so far.
\<close>

definition copy_entries :: "nat \<Rightarrow> ('a \<Rightarrow> 'b) \<Rightarrow> 'a list \<Rightarrow> abnormal + 'b list" where
  "copy_entries D conv v =
     for_loop 0 D (\<lambda>i arr. andThen (vector_at v i) (\<lambda>x. Inr (arr @ [conv x]))) []"

text \<open>Lines 161 to 165 and 202 to 206: every entry of an index is set to 0.\<close>

definition zero_index :: "nat \<Rightarrow> abnormal + int list" where
  "zero_index D = for_loop 0 D (\<lambda>i arr. Inr (arr @ [0])) []"

text \<open>Lines 186 to 193: \<open>direction[r][c] = Direction[r * D + c]\<close>.\<close>

definition read_direction :: "nat \<Rightarrow> 'd list \<Rightarrow> abnormal + 'd list list" where
  "read_direction D v =
     for_loop 0 D
       (\<lambda>r rows.
          andThen
            (for_loop 0 D (\<lambda>c row. andThen (vector_at v (r * D + c)) (\<lambda>x. Inr (row @ [x]))) [])
            (\<lambda>row. Inr (rows @ [row])))
       []"

text \<open>
  The right-hand side \<open>FillValue[c % FillValue.size()]\<close> of line 200. The remainder by
  the size of an empty vector is a division by zero.
\<close>

definition read_FillValue :: "'r list \<Rightarrow> nat \<Rightarrow> abnormal + 'r" where
  "read_FillValue fv c =
     (if length fv = 0 then Inl (Undefined DivisionByZero)
      else vector_at fv (c mod length fv))"

text \<open>
  Lines 197 to 201: \<open>pixel\<close> points to the first scalar of the buffer and
  \<open>pixel[c] = FillValue[c % FillValue.size()]\<close> stores the converted value, for every
  component \<open>c\<close> of a pixel. The store is unchecked too.
\<close>

definition set_first_pixel ::
    "('r, 's, 'd) itk \<Rightarrow> 'r list \<Rightarrow> ('s, 'd) itk_image \<Rightarrow> abnormal + ('s, 'd) itk_image" where
  "set_first_pixel lib fv img =
     andThen
       (for_loop 0 (GetNumberOfComponentsPerPixel img)
          (\<lambda>c buf.
             andThen (read_FillValue fv c)
               (\<lambda>x. if c < length buf
                    then Inr (buf[c := convert lib (component_type (representation img)) x])
                    else Inl (Undefined OutOfRange)))
          (buffer img))
       (\<lambda>buf. Inr (img\<lparr>buffer := buf\<rparr>))"

subsection \<open>The builder\<close>

text \<open>Lines 150 to 170: the image object, its component count, its region, its buffer.\<close>

definition allocate_image ::
    "('r, 's, 'd :: {zero, one}) itk \<Rightarrow> PixelRepresentation \<Rightarrow> ('r, 'd) arguments
      \<Rightarrow> abnormal + ('s, 'd) itk_image" where
  "allocate_image lib rep a =
     (let D = ImageDimension rep;
          img = New rep;
          img = (if NumberOfComponents a > 1
                   then SetNumberOfComponentsPerPixel (nat (NumberOfComponents a)) img
                   else img)
      in andThen (copy_entries D SizeValueType_of_int (Size a)) (\<lambda>sz.
         andThen (zero_index D) (\<lambda>start.
         Allocate lib (SetRegions start sz img))))"

text \<open>Lines 172 to 194: spacing, origin and direction.\<close>

definition set_geometry ::
    "('r, 's, 'd) itk \<Rightarrow> ('r, 'd) arguments \<Rightarrow> ('s, 'd) itk_image
      \<Rightarrow> abnormal + ('s, 'd) itk_image" where
  "set_geometry lib a img =
     (let D = ImageDimension (representation img)
      in andThen (copy_entries D (\<lambda>x. x) (Spacing a)) (\<lambda>sp.
         andThen (SetSpacing lib sp img) (\<lambda>img.
         andThen (copy_entries D (\<lambda>x. x) (Origin a)) (\<lambda>orig.
         andThen (Inr (SetOrigin orig img)) (\<lambda>img.
         andThen (read_direction D (Direction a)) (\<lambda>dir.
         SetDirection lib dir img))))))"

text \<open>Lines 196 to 207: the pixel at the zero index is set and copied to every pixel.\<close>

definition fill_image ::
    "('r, 's, 'd) itk \<Rightarrow> ('r, 'd) arguments \<Rightarrow> ('s, 'd) itk_image
      \<Rightarrow> abnormal + ('s, 'd) itk_image" where
  "fill_image lib a img =
     andThen (set_first_pixel lib (FillValue a) img) (\<lambda>img.
     andThen (zero_index (ImageDimension (representation img))) (\<lambda>firstIndex.
     andThen (GetPixel img firstIndex) (\<lambda>px.
     Inr (FillBuffer px img))))"

text \<open>Lines 150 to 207, in the order of the source: the image handed to the writer.\<close>

definition make_image ::
    "('r, 's, 'd :: {zero, one}) itk \<Rightarrow> PixelRepresentation \<Rightarrow> ('r, 'd) arguments
      \<Rightarrow> abnormal + ('s, 'd) itk_image" where
  "make_image lib rep a =
     andThen (allocate_image lib rep a) (\<lambda>img.
     andThen (set_geometry lib a img) (\<lambda>img.
     fill_image lib a img))"

text \<open>
  Lines 209 to 218: the writer. What it printed and what it left on disk stay when it
  throws.
\<close>

definition DoIt_image ::
    "('r, 's, 'd :: {zero, one}) itk \<Rightarrow> PixelRepresentation \<Rightarrow> ('r, 'd) arguments \<Rightarrow> world
      \<Rightarrow> (abnormal + int) \<times> world" where
  "DoIt_image lib rep a w =
     (case make_image lib rep a of
        Inl e \<Rightarrow> (Inl e, w)
      | Inr img \<Rightarrow>
          (let res = Update lib img (OutputVolume a);
               w' = w\<lparr>cout := cout w @ progress res,
                      files := (case written res of
                                  None \<Rightarrow> files w
                                | Some bytes \<Rightarrow> (files w)(OutputVolume a \<mapsto> bytes))\<rparr>
           in case thrown res of
                Some e \<Rightarrow> (Inl (Throw e), w')
              | None \<Rightarrow> (Inr EXIT_SUCCESS, w')))"

subsection \<open>The dispatcher and main\<close>

text \<open>The template arguments of one call of the builder in \<open>DoIt<D>\<close>.\<close>

definition template_instance :: "ImageClass \<Rightarrow> IOComponentType \<Rightarrow> nat \<Rightarrow> PixelRepresentation" where
  "template_instance cls t D = \<lparr>image_class = cls, component_type = t, ImageDimension = D\<rparr>"

text \<open>
  Lines 86 to 140: the switch over the enumerator of the scalar type tag. Each named
  enumerator calls the builder for the vector image or the scalar image of its scalar type;
  \<open>UNKNOWNCOMPONENTTYPE\<close> and the \<open>default\<close> label print a line on \<open>std::cout\<close> and fall
  through to \<open>return EXIT_FAILURE\<close>.
\<close>

definition DoIt_D ::
    "('r, 's, 'd :: {zero, one}) itk \<Rightarrow> nat \<Rightarrow> ('r, 'd) arguments \<Rightarrow> int \<Rightarrow> string \<Rightarrow> world
      \<Rightarrow> (abnormal + int) \<times> world" where
  "DoIt_D lib D a numberOfComponents scalarType w =
     (let isVector = (numberOfComponents > 1)
      in case GetComponentTypeFromString lib scalarType of
           UCHAR \<Rightarrow>
             (if isVector then DoIt_image lib (template_instance VectorImage UCHAR D) a w
              else DoIt_image lib (template_instance Image UCHAR D) a w)
         | CHAR' \<Rightarrow>
             (if isVector then DoIt_image lib (template_instance VectorImage CHAR' D) a w
              else DoIt_image lib (template_instance Image CHAR' D) a w)
         | USHORT \<Rightarrow>
             (if isVector then DoIt_image lib (template_instance VectorImage USHORT D) a w
              else DoIt_image lib (template_instance Image USHORT D) a w)
         | SHORT \<Rightarrow>
             (if isVector then DoIt_image lib (template_instance VectorImage SHORT D) a w
              else DoIt_image lib (template_instance Image SHORT D) a w)
         | UINT \<Rightarrow>
             (if isVector then DoIt_image lib (template_instance VectorImage UINT D) a w
              else DoIt_image lib (template_instance Image UINT D) a w)
         | INT' \<Rightarrow>
             (if isVector then DoIt_image lib (template_instance VectorImage INT' D) a w
              else DoIt_image lib (template_instance Image INT' D) a w)
         | ULONG \<Rightarrow>
             (if isVector then DoIt_image lib (template_instance VectorImage ULONG D) a w
              else DoIt_image lib (template_instance Image ULONG D) a w)
         | LONG \<Rightarrow>
             (if isVector then DoIt_image lib (template_instance VectorImage LONG D) a w
              else DoIt_image lib (template_instance Image LONG D) a w)
         | FLOAT \<Rightarrow>
             (if isVector then DoIt_image lib (template_instance VectorImage FLOAT D) a w
              else DoIt_image lib (template_instance Image FLOAT D) a w)
         | DOUBLE \<Rightarrow>
             (if isVector then DoIt_image lib (template_instance VectorImage DOUBLE D) a w
              else DoIt_image lib (template_instance Image DOUBLE D) a w)
         | UNKNOWNCOMPONENTTYPE \<Rightarrow>
             (Inr EXIT_FAILURE, w\<lparr>cout := cout w @ [''unknown component type'']\<rparr>)
         | OTHERCOMPONENTTYPE \<Rightarrow>
             (Inr EXIT_FAILURE, w\<lparr>cout := cout w @ [''unknown component type'']\<rparr>))"

text \<open>The switch of \<open>main\<close>: 1 and 2 select themselves, every other value selects 3.\<close>

definition dispatch ::
    "('r, 's, 'd :: {zero, one}) itk \<Rightarrow> ('r, 'd) arguments \<Rightarrow> world
      \<Rightarrow> (abnormal + int) \<times> world" where
  "dispatch lib a w =
     (if Dimension a = 1 then DoIt_D lib 1 a (NumberOfComponents a) (ScalarType a) w
      else if Dimension a = 2 then DoIt_D lib 2 a (NumberOfComponents a) (ScalarType a) w
      else DoIt_D lib 3 a (NumberOfComponents a) (ScalarType a) w)"

text \<open>
  The handler of \<open>main\<close> catches an \<open>itk::ExceptionObject\<close>, prints two lines on the error
  stream and returns \<open>EXIT_FAILURE\<close>. Anything else leaves \<open>main\<close> as it came.
\<close>

definition main ::
    "('r, 's, 'd :: {zero, one}) itk \<Rightarrow> ('r, 'd) arguments \<Rightarrow> world
      \<Rightarrow> (abnormal + int) \<times> world" where
  "main lib a w =
     (case dispatch lib a w of
        (Inl (Throw (ExceptionObject excep)), w') \<Rightarrow>
          (Inr EXIT_FAILURE,
           w'\<lparr>cerr := cerr w' @ [argv0 a @ '': exception caught !'', excep]\<rparr>)
      | (r, w') \<Rightarrow> (r, w'))"

subsection \<open>Concrete inputs\<close>

text \<open>
  Modelled from the spec: the table of \<open>itk::ImageIOBase::GetComponentTypeFromString\<close>,
  which belongs to ITK and is not in the repository. The ten tags are those of the spec's
  data model; every other string is unknown.
\<close>

definition spec_tags :: "string \<Rightarrow> IOComponentType" where
  "spec_tags s =
     (if s = ''uchar'' then UCHAR else if s = ''char'' then CHAR'
      else if s = ''ushort'' then USHORT else if s = ''short'' then SHORT
      else if s = ''uint'' then UINT else if s = ''int'' then INT'
      else if s = ''ulong'' then ULONG else if s = ''long'' then LONG
      else if s = ''float'' then FLOAT else if s = ''double'' then DOUBLE
      else UNKNOWNCOMPONENTTYPE)"

text \<open>
  A library for the examples: fill values, scalars and coordinates are integers, an
  unsigned char keeps the value modulo 256, a fresh buffer holds 77 everywhere, an
  allocation of more than a million scalars fails, the setters accept everything, and
  the writer refuses an empty file name.
\<close>

definition example_itk :: "(int, int, int) itk" where
  "example_itk =
     \<lparr>GetComponentTypeFromString = spec_tags,
      convert = (\<lambda>t x. if t = UCHAR then x mod 256 else x),
      fresh = (\<lambda>i. 77),
      Allocate_throws =
        (\<lambda>n. if 1000000 < n then Some (ExceptionObject ''Failed to allocate memory for image.'')
             else None),
      SetSpacing_throws = (\<lambda>sp. None),
      SetDirection_throws = (\<lambda>dir. None),
      Update =
        (\<lambda>img name.
           if name = [] then \<lparr>progress = [], written = None,
                               thrown = Some (ExceptionObject ''FileName is empty'')\<rparr>
           else \<lparr>progress = [''Write Volume''], written = Some ''image'', thrown = None\<rparr>)\<rparr>"

text \<open>
  The second scenario of the spec: three components, two fill values; here on a 2 by 2
  image.
\<close>

definition example_arguments :: "(int, int) arguments" where
  "example_arguments =
     \<lparr>argv0 = ''ImageMaker'', Dimension = 2, NumberOfComponents = 3, ScalarType = ''uchar'',
      Size = [2, 2], Spacing = [1, 1], Origin = [0, 0], Direction = [1, 0, 0, 1],
      FillValue = [10, 20], OutputVolume = ''out.nrrd''\<rparr>"

definition example_world :: world where
  "example_world = \<lparr>cout = [], cerr = [], files = Map.empty\<rparr>"

text \<open>The image the builder returns for these arguments as a two-dimensional vector image.\<close>

definition example_image :: "(int, int) itk_image" where
  "example_image =
     \<lparr>representation = template_instance VectorImage UCHAR 2, VectorLength = 3,
      region_index = [0, 0], region_size = [2, 2],
      buffer = [10, 20, 10, 10, 20, 10, 10, 20, 10, 10, 20, 10],
      spacing = [1, 1], origin = [0, 0], direction = [[1, 0], [0, 1]]\<rparr>"

section \<open>What the loops compute\<close>

lemma andThen_Inl [simp]: "andThen (Inl e) f = Inl e"
  by (simp add: andThen_def)

lemma andThen_Inr [simp]: "andThen (Inr x) f = f x"
  by (simp add: andThen_def)

lemma andThen_eq_Inr: "andThen m f = Inr y \<longleftrightarrow> (\<exists>x. m = Inr x \<and> f x = Inr y)"
  by (cases m) simp_all

lemma for_loop_collect:
  assumes F: "\<And>j. F j = (if ok j then Inr (val j) else Inl e)"
  shows "for_loop i n (\<lambda>j arr. andThen (F j) (\<lambda>x. Inr (arr @ [g x]))) acc =
         (if \<forall>j. i \<le> j \<and> j < i + n \<longrightarrow> ok j
          then Inr (acc @ map (\<lambda>j. g (val j)) [i..<i + n]) else Inl e)"
proof (induction n arbitrary: i acc)
  case 0
  then show ?case by simp
next
  case (Suc n)
  show ?case
  proof (cases "ok i")
    case False
    then have "\<not> (\<forall>j. i \<le> j \<and> j < i + Suc n \<longrightarrow> ok j)"
      by (intro notI) (auto dest: spec [of _ i])
    with False show ?thesis by (simp add: F [of i])
  next
    case True
    have iff: "(\<forall>j. i \<le> j \<and> j < i + Suc n \<longrightarrow> ok j) \<longleftrightarrow> (\<forall>j. Suc i \<le> j \<and> j < Suc i + n \<longrightarrow> ok j)"
    proof (intro iffI allI impI)
      fix j assume "\<forall>j. i \<le> j \<and> j < i + Suc n \<longrightarrow> ok j" "Suc i \<le> j \<and> j < Suc i + n"
      then show "ok j" by simp
    next
      fix j assume a: "\<forall>j. Suc i \<le> j \<and> j < Suc i + n \<longrightarrow> ok j" "i \<le> j \<and> j < i + Suc n"
      show "ok j"
      proof (cases "j = i")
        case True
        with \<open>ok i\<close> show ?thesis by simp
      next
        case False
        with a show ?thesis by simp
      qed
    qed
    have up: "[i..<i + Suc n] = i # [Suc i..<Suc i + n]"
      by (simp add: upt_rec)
    have "for_loop i (Suc n) (\<lambda>j arr. andThen (F j) (\<lambda>x. Inr (arr @ [g x]))) acc =
          for_loop (Suc i) n (\<lambda>j arr. andThen (F j) (\<lambda>x. Inr (arr @ [g x]))) (acc @ [g (val i)])"
      using True by (simp add: F [of i])
    also have "\<dots> = (if \<forall>j. Suc i \<le> j \<and> j < Suc i + n \<longrightarrow> ok j
                     then Inr ((acc @ [g (val i)]) @ map (\<lambda>j. g (val j)) [Suc i..<Suc i + n])
                     else Inl e)"
      by (rule Suc.IH)
    finally show ?thesis
      by (simp only: iff up) simp
  qed
qed

lemma for_loop_zeros:
  "for_loop i n (\<lambda>j arr. Inr (arr @ [z])) acc = Inr (acc @ replicate n z)"
  by (induction n arbitrary: i acc) (simp_all add: replicate_app_Cons_same)

lemma zero_index_eq: "zero_index D = Inr (replicate D 0)"
  by (simp add: zero_index_def for_loop_zeros)

lemma copy_entries_eq:
  "copy_entries D conv v =
     (if D \<le> length v then Inr (map conv (take D v)) else Inl (Undefined OutOfRange))"
proof -
  have F: "\<And>j. vector_at v j = (if j < length v then Inr (v ! j) else Inl (Undefined OutOfRange))"
    by (simp add: vector_at_def)
  have m: "D \<le> length v \<Longrightarrow> map (\<lambda>j. conv (v ! j)) [0..<D] = map conv (take D v)"
    by (simp add: list_eq_iff_nth_eq)
  have c: "(\<forall>j. j < D \<longrightarrow> j < length v) \<longleftrightarrow> D \<le> length v"
    by (auto simp: not_le [symmetric] dest: spec [of _ "length v"])
  show ?thesis
    unfolding copy_entries_def
    by (simp add: for_loop_collect [where ok = "\<lambda>j. j < length v" and val = "\<lambda>j. v ! j", OF F] m c)
qed

lemma read_direction_eq:
  "read_direction D v =
     (if D = 0 \<or> D * D \<le> length v
      then Inr (map (\<lambda>r. map (\<lambda>c. v ! (r * D + c)) [0..<D]) [0..<D])
      else Inl (Undefined OutOfRange))"
proof (cases D)
  case 0
  then show ?thesis by (simp add: read_direction_def)
next
  case (Suc k)
  have row: "for_loop 0 D (\<lambda>c row. andThen (vector_at v (r * D + c)) (\<lambda>x. Inr (row @ [x]))) [] =
      (if r * D + D \<le> length v then Inr (map (\<lambda>c. v ! (r * D + c)) [0..<D])
       else Inl (Undefined OutOfRange))" for r
  proof -
    have F: "\<And>j. vector_at v (r * D + j) =
        (if r * D + j < length v then Inr (v ! (r * D + j)) else Inl (Undefined OutOfRange))"
      by (simp add: vector_at_def)
    have c: "(\<forall>j. 0 \<le> j \<and> j < 0 + D \<longrightarrow> r * D + j < length v) \<longleftrightarrow> r * D + D \<le> length v"
    proof
      assume "\<forall>j. 0 \<le> j \<and> j < 0 + D \<longrightarrow> r * D + j < length v"
      then have "r * D + k < length v" using Suc by simp
      then show "r * D + D \<le> length v" using Suc by simp
    next
      assume "r * D + D \<le> length v"
      then show "\<forall>j. 0 \<le> j \<and> j < 0 + D \<longrightarrow> r * D + j < length v" by auto
    qed
    show ?thesis
      unfolding for_loop_collect [where F = "\<lambda>j. vector_at v (r * D + j)" and g = "\<lambda>x. x"
          and ok = "\<lambda>j. r * D + j < length v" and val = "\<lambda>j. v ! (r * D + j)", OF F] c
      by simp
  qed
  have c2: "(\<forall>r. 0 \<le> r \<and> r < 0 + D \<longrightarrow> r * D + D \<le> length v) \<longleftrightarrow> D * D \<le> length v"
  proof
    assume "\<forall>r. 0 \<le> r \<and> r < 0 + D \<longrightarrow> r * D + D \<le> length v"
    then have "k * D + D \<le> length v" using Suc by simp
    then show "D * D \<le> length v" using Suc by (simp add: algebra_simps)
  next
    assume a: "D * D \<le> length v"
    show "\<forall>r. 0 \<le> r \<and> r < 0 + D \<longrightarrow> r * D + D \<le> length v"
    proof (intro allI impI)
      fix r assume "0 \<le> r \<and> r < 0 + D"
      then have "Suc r \<le> D" by simp
      then have "Suc r * D \<le> D * D" by (rule mult_le_mono1)
      with a show "r * D + D \<le> length v" by (simp add: algebra_simps)
    qed
  qed
  have "read_direction D v =
      (if D * D \<le> length v
       then Inr ([] @ map (\<lambda>r. map (\<lambda>c. v ! (r * D + c)) [0..<D]) [0..<0 + D])
       else Inl (Undefined OutOfRange))"
    unfolding read_direction_def
      for_loop_collect [where F = "\<lambda>r. for_loop 0 D (\<lambda>c row. andThen (vector_at v (r * D + c)) (\<lambda>x. Inr (row @ [x]))) []"
          and g = "\<lambda>x. x" and ok = "\<lambda>r. r * D + D \<le> length v"
          and val = "\<lambda>r. map (\<lambda>c. v ! (r * D + c)) [0..<D]", OF row] c2
    by (rule refl)
  then show ?thesis using Suc by simp
qed

lemma concat_replicate_nth:
  "p < m \<Longrightarrow> c < length px \<Longrightarrow> concat (replicate m px) ! (p * length px + c) = px ! c"
proof (induction m arbitrary: p)
  case 0
  then show ?case by simp
next
  case (Suc m)
  show ?case
  proof (cases p)
    case 0
    with Suc.prems show ?thesis by (simp add: nth_append)
  next
    case (Suc q)
    with Suc.prems Suc.IH [of q] show ?thesis by (simp add: nth_append)
  qed
qed

lemma length_concat_replicate: "length (concat (replicate m px)) = m * length px"
  by (induction m) simp_all

lemma ComputeOffset_zero:
  "ComputeOffset (replicate D 0) ns (replicate D 0) = 0"
proof (induction D arbitrary: ns)
  case 0
  then show ?case by simp
next
  case (Suc D)
  then show ?case by (cases ns) simp_all
qed

text \<open>The body of the loop of lines 198 to 201, for a conversion \<open>cv\<close>.\<close>

lemma first_pixel_loop_ok:
  assumes "fv \<noteq> []" and "i + n \<le> length buf"
  shows "\<exists>buf'. for_loop i n
            (\<lambda>c b. andThen (read_FillValue fv c)
               (\<lambda>x. if c < length b then Inr (b[c := cv x]) else Inl (Undefined OutOfRange))) buf
          = Inr buf' \<and> length buf' = length buf \<and>
          (\<forall>k<length buf. buf' ! k =
             (if i \<le> k \<and> k < i + n then cv (fv ! (k mod length fv)) else buf ! k))"
  using assms
proof (induction n arbitrary: i buf)
  case 0
  then show ?case by auto
next
  case (Suc n)
  let ?body = "\<lambda>c b. andThen (read_FillValue fv c)
               (\<lambda>x. if c < length b then Inr (b[c := cv x]) else Inl (Undefined OutOfRange))"
  let ?b1 = "buf[i := cv (fv ! (i mod length fv))]"
  have rd: "read_FillValue fv i = Inr (fv ! (i mod length fv))"
    using Suc.prems(1) by (simp add: read_FillValue_def vector_at_def)
  have step: "for_loop i (Suc n) ?body buf = for_loop (Suc i) n ?body ?b1"
    using Suc.prems(2) by (simp add: rd)
  have "Suc i + n \<le> length ?b1" using Suc.prems(2) by simp
  from Suc.IH [OF Suc.prems(1) this] obtain buf' where
    b: "for_loop (Suc i) n ?body ?b1 = Inr buf'" "length buf' = length ?b1"
       "\<forall>k<length ?b1. buf' ! k =
           (if Suc i \<le> k \<and> k < Suc i + n then cv (fv ! (k mod length fv)) else ?b1 ! k)"
    by blast
  have "\<forall>k<length buf. buf' ! k =
             (if i \<le> k \<and> k < i + Suc n then cv (fv ! (k mod length fv)) else buf ! k)"
  proof (intro allI impI)
    fix k assume k: "k < length buf"
    show "buf' ! k = (if i \<le> k \<and> k < i + Suc n then cv (fv ! (k mod length fv)) else buf ! k)"
    proof (cases "k = i")
      case True
      with b(3) k show ?thesis by simp
    next
      case False
      with b(3) k show ?thesis by auto
    qed
  qed
  with b(1,2) step show ?case by simp
qed

lemma first_pixel_loop_overrun:
  assumes "fv \<noteq> []" and "length buf < i + n" and "i \<le> length buf"
  shows "for_loop i n
            (\<lambda>c b. andThen (read_FillValue fv c)
               (\<lambda>x. if c < length b then Inr (b[c := cv x]) else Inl (Undefined OutOfRange))) buf
          = Inl (Undefined OutOfRange)"
  using assms
proof (induction n arbitrary: i buf)
  case 0
  then show ?case by simp
next
  case (Suc n)
  have rd: "read_FillValue fv i = Inr (fv ! (i mod length fv))"
    using Suc.prems(1) by (simp add: read_FillValue_def vector_at_def)
  show ?case
  proof (cases "i < length buf")
    case True
    then show ?thesis
      using Suc.prems Suc.IH [where i = "Suc i" and buf = "buf[i := cv (fv ! (i mod length fv))]"]
      by (simp add: rd)
  next
    case False
    then show ?thesis by (simp add: rd)
  qed
qed

lemma first_pixel_loop_empty:
  "0 < n \<Longrightarrow> for_loop i n
            (\<lambda>c b. andThen (read_FillValue [] c)
               (\<lambda>x. if c < length b then Inr (b[c := cv x]) else Inl (Undefined OutOfRange))) buf
          = Inl (Undefined DivisionByZero)"
  by (cases n) (simp_all add: read_FillValue_def)

section \<open>What the three parts of the builder compute\<close>

lemma representation_New [simp]: "representation (New rep) = rep"
  by (simp add: New_def Let_def)

lemma GetNumberOfComponentsPerPixel_buffer [simp]:
  "GetNumberOfComponentsPerPixel (img\<lparr>buffer := b\<rparr>) = GetNumberOfComponentsPerPixel img"
  by (simp add: GetNumberOfComponentsPerPixel_def split: ImageClass.splits)

lemma GetNumberOfPixels_buffer [simp]:
  "GetNumberOfPixels (img\<lparr>buffer := b\<rparr>) = GetNumberOfPixels img"
  by (simp add: GetNumberOfPixels_def)

lemma allocate_image_eq:
  fixes lib :: "('r, 's, 'd :: {zero, one}) itk" and rep :: PixelRepresentation
    and a :: "('r, 'd) arguments"
  defines "D \<equiv> ImageDimension rep"
  defines "vl \<equiv> (if image_class rep = VectorImage \<and> 1 < NumberOfComponents a
                   then nat (NumberOfComponents a) else 0)"
  defines "n \<equiv> (case image_class rep of Image \<Rightarrow> 1 | VectorImage \<Rightarrow> vl)"
  defines "sz \<equiv> map SizeValueType_of_int (take D (Size a))"
  shows "allocate_image lib rep a =
          (if \<not> D \<le> length (Size a) then Inl (Undefined OutOfRange)
           else if n = 0
             then Inl (Throw (ExceptionObject ''Cannot allocate since the VectorLength is 0''))
           else case Allocate_throws lib (prod_list sz * n) of
                  Some e \<Rightarrow> Inl (Throw e)
                | None \<Rightarrow>
                    Inr ((New rep)\<lparr>VectorLength := vl, region_index := replicate D 0,
                           region_size := sz,
                           buffer := map (fresh lib) [0..<prod_list sz * n]\<rparr>))"
  unfolding D_def vl_def n_def sz_def
  by (cases "image_class rep")
     (auto simp: allocate_image_def copy_entries_eq zero_index_eq Let_def Allocate_def
        SetRegions_def SetNumberOfComponentsPerPixel_def GetNumberOfPixels_def
        GetNumberOfComponentsPerPixel_def New_def split: option.splits)

lemma set_geometry_eq:
  fixes lib :: "('r, 's, 'd) itk" and img :: "('s, 'd) itk_image" and a :: "('r, 'd) arguments"
    and D :: nat
  defines "dir \<equiv> map (\<lambda>r. map (\<lambda>c. Direction a ! (r * D + c)) [0..<D]) [0..<D]"
  assumes D: "ImageDimension (representation img) = D"
  shows "set_geometry lib a img =
          (if \<not> D \<le> length (Spacing a) then Inl (Undefined OutOfRange)
           else case SetSpacing_throws lib (take D (Spacing a)) of
                  Some e \<Rightarrow> Inl (Throw e)
                | None \<Rightarrow>
                    if \<not> D \<le> length (Origin a) then Inl (Undefined OutOfRange)
                    else if \<not> (D = 0 \<or> D * D \<le> length (Direction a))
                      then Inl (Undefined OutOfRange)
                    else case SetDirection_throws lib dir of
                           Some e \<Rightarrow> Inl (Throw e)
                         | None \<Rightarrow>
                             Inr (img\<lparr>spacing := take D (Spacing a),
                                      origin := take D (Origin a), direction := dir\<rparr>))"
  unfolding dir_def
  by (auto simp: set_geometry_def copy_entries_eq read_direction_eq Let_def SetSpacing_def
        SetOrigin_def SetDirection_def D split: option.splits)

lemma fill_image_eq:
  fixes lib :: "('r, 's, 'd) itk" and img :: "('s, 'd) itk_image" and a :: "('r, 'd) arguments"
    and n N :: nat
  defines "px \<equiv> map (\<lambda>c. convert lib (component_type (representation img))
                          (FillValue a ! (c mod length (FillValue a)))) [0..<n]"
  assumes n_def: "GetNumberOfComponentsPerPixel img = n"
      and N_def: "GetNumberOfPixels img = N"
      and idx: "region_index img = replicate (ImageDimension (representation img)) 0"
      and len: "length (buffer img) = N * n"
      and n: "0 < n"
  shows "fill_image lib a img =
          (if FillValue a = [] then Inl (Undefined DivisionByZero)
           else if N = 0 then Inl (Undefined OutOfRange)
           else Inr (img\<lparr>buffer := concat (replicate N px)\<rparr>))"
proof (cases "FillValue a = []")
  case True
  then show ?thesis
    using n by (simp add: fill_image_def set_first_pixel_def first_pixel_loop_empty n_def)
next
  case fv: False
  let ?cv = "convert lib (component_type (representation img))"
  show ?thesis
  proof (cases "N = 0")
    case True
    then have "length (buffer img) < 0 + n" using len n by simp
    from first_pixel_loop_overrun [OF fv this, of ?cv]
    show ?thesis
      using True fv by (simp add: fill_image_def set_first_pixel_def n_def)
  next
    case False
    then have "n \<le> N * n" by simp
    then have le: "0 + n \<le> length (buffer img)" using len by simp
    from first_pixel_loop_ok [OF fv le, of ?cv] obtain buf' where
      b: "for_loop 0 n
            (\<lambda>c b. andThen (read_FillValue (FillValue a) c)
               (\<lambda>x. if c < length b then Inr (b[c := ?cv x]) else Inl (Undefined OutOfRange)))
            (buffer img) = Inr buf'"
         "length buf' = length (buffer img)"
         "\<forall>k<length (buffer img). buf' ! k =
            (if 0 \<le> k \<and> k < 0 + n then ?cv (FillValue a ! (k mod length (FillValue a)))
             else buffer img ! k)"
      by blast
    have first: "set_first_pixel lib (FillValue a) img = Inr (img\<lparr>buffer := buf'\<rparr>)"
      using b(1) by (simp add: set_first_pixel_def n_def)
    have tk: "take n buf' = px"
      using b(2,3) le by (auto simp: list_eq_iff_nth_eq px_def)
    have gp: "GetPixel (img\<lparr>buffer := buf'\<rparr>) (replicate (ImageDimension (representation img)) 0)
              = Inr px"
      using le b(2) tk
      by (simp add: GetPixel_def idx ComputeOffset_zero Let_def n_def)
    have "fill_image lib a img = Inr (img\<lparr>buffer := concat (replicate N px)\<rparr>)"
      by (simp add: fill_image_def first zero_index_eq gp FillBuffer_def N_def)
    then show ?thesis using fv False by simp
  qed
qed

lemma make_image_eq:
  fixes lib :: "('r, 's, 'd :: {zero, one}) itk" and rep :: PixelRepresentation
    and a :: "('r, 'd) arguments"
  defines "D \<equiv> ImageDimension rep"
  defines "vl \<equiv> (if image_class rep = VectorImage \<and> 1 < NumberOfComponents a
                   then nat (NumberOfComponents a) else 0)"
  defines "n \<equiv> (case image_class rep of Image \<Rightarrow> 1 | VectorImage \<Rightarrow> vl)"
  defines "sz \<equiv> map SizeValueType_of_int (take D (Size a))"
  defines "dir \<equiv> map (\<lambda>r. map (\<lambda>c. Direction a ! (r * D + c)) [0..<D]) [0..<D]"
  defines "px \<equiv> map (\<lambda>c. convert lib (component_type rep)
                          (FillValue a ! (c mod length (FillValue a)))) [0..<n]"
  shows "make_image lib rep a =
          (if \<not> D \<le> length (Size a) then Inl (Undefined OutOfRange)
           else if n = 0
             then Inl (Throw (ExceptionObject ''Cannot allocate since the VectorLength is 0''))
           else case Allocate_throws lib (prod_list sz * n) of
             Some e \<Rightarrow> Inl (Throw e)
           | None \<Rightarrow>
               if \<not> D \<le> length (Spacing a) then Inl (Undefined OutOfRange)
               else case SetSpacing_throws lib (take D (Spacing a)) of
                 Some e \<Rightarrow> Inl (Throw e)
               | None \<Rightarrow>
                   if \<not> D \<le> length (Origin a) then Inl (Undefined OutOfRange)
                   else if \<not> (D = 0 \<or> D * D \<le> length (Direction a))
                     then Inl (Undefined OutOfRange)
                   else case SetDirection_throws lib dir of
                     Some e \<Rightarrow> Inl (Throw e)
                   | None \<Rightarrow>
                       if FillValue a = [] then Inl (Undefined DivisionByZero)
                       else if prod_list sz = 0 then Inl (Undefined OutOfRange)
                       else Inr \<lparr>representation = rep, VectorLength = vl,
                                  region_index = replicate D 0, region_size = sz,
                                  buffer = concat (replicate (prod_list sz) px),
                                  spacing = take D (Spacing a), origin = take D (Origin a),
                                  direction = dir\<rparr>)"
proof -
  let ?img1 = "(New rep :: ('s, 'd) itk_image)\<lparr>VectorLength := vl, region_index := replicate D 0,
                  region_size := sz, buffer := map (fresh lib) [0..<prod_list sz * n]\<rparr>"
  let ?img2 = "?img1\<lparr>spacing := take D (Spacing a), origin := take D (Origin a), direction := dir\<rparr>"
  have alloc: "allocate_image lib rep a =
          (if \<not> D \<le> length (Size a) then Inl (Undefined OutOfRange)
           else if n = 0
             then Inl (Throw (ExceptionObject ''Cannot allocate since the VectorLength is 0''))
           else case Allocate_throws lib (prod_list sz * n) of
                  Some e \<Rightarrow> Inl (Throw e)
                | None \<Rightarrow> Inr ?img1)"
    unfolding D_def vl_def n_def sz_def by (rule allocate_image_eq)
  have geo: "set_geometry lib a ?img1 =
          (if \<not> D \<le> length (Spacing a) then Inl (Undefined OutOfRange)
           else case SetSpacing_throws lib (take D (Spacing a)) of
                  Some e \<Rightarrow> Inl (Throw e)
                | None \<Rightarrow>
                    if \<not> D \<le> length (Origin a) then Inl (Undefined OutOfRange)
                    else if \<not> (D = 0 \<or> D * D \<le> length (Direction a))
                      then Inl (Undefined OutOfRange)
                    else case SetDirection_throws lib dir of
                           Some e \<Rightarrow> Inl (Throw e)
                         | None \<Rightarrow> Inr ?img2)"
  proof -
    have "ImageDimension (representation ?img1) = D" by (simp add: D_def)
    from set_geometry_eq [OF this, of lib a] show ?thesis by (simp only: dir_def)
  qed
  have cpp: "GetNumberOfComponentsPerPixel ?img2 = n"
    by (simp add: GetNumberOfComponentsPerPixel_def New_def Let_def n_def split: ImageClass.splits)
  have np: "GetNumberOfPixels ?img2 = prod_list sz"
    by (simp add: GetNumberOfPixels_def)
  have fill: "fill_image lib a ?img2 =
          (if FillValue a = [] then Inl (Undefined DivisionByZero)
           else if prod_list sz = 0 then Inl (Undefined OutOfRange)
           else Inr \<lparr>representation = rep, VectorLength = vl,
                      region_index = replicate D 0, region_size = sz,
                      buffer = concat (replicate (prod_list sz) px),
                      spacing = take D (Spacing a), origin = take D (Origin a),
                      direction = dir\<rparr>)" if "0 < n"
  proof -
    have idx: "region_index ?img2 = replicate (ImageDimension (representation ?img2)) 0"
      by (simp add: D_def)
    have len: "length (buffer ?img2) = prod_list sz * n"
      by simp
    have final: "?img2\<lparr>buffer := concat (replicate (prod_list sz) px)\<rparr> =
        \<lparr>representation = rep, VectorLength = vl, region_index = replicate D 0,
         region_size = sz, buffer = concat (replicate (prod_list sz) px),
         spacing = take D (Spacing a), origin = take D (Origin a), direction = dir\<rparr>"
      by (simp add: New_def Let_def)
    have "component_type (representation ?img2) = component_type rep"
      by simp
    with fill_image_eq [OF cpp np idx len that, of lib a] final show ?thesis
      by (simp only: px_def)
  qed
  define i1 where "i1 = ?img1"
  define i2 where "i2 = ?img2"
  note alloc' = alloc [folded i1_def]
  note geo' = geo [folded i1_def i2_def]
  note fill' = fill [folded i1_def i2_def]
  show ?thesis
  proof (cases "D \<le> length (Size a) \<and> 0 < n")
    case False
    then show ?thesis by (auto simp: make_image_def alloc')
  next
    case True
    show ?thesis
    proof (cases "Allocate_throws lib (prod_list sz * n)")
      case (Some e)
      with True show ?thesis by (simp add: make_image_def alloc')
    next
      case None
      with True have "make_image lib rep a = andThen (set_geometry lib a i1) (fill_image lib a)"
        by (simp add: make_image_def alloc')
      also have "\<dots> =
           (if \<not> D \<le> length (Spacing a) then Inl (Undefined OutOfRange)
               else case SetSpacing_throws lib (take D (Spacing a)) of
                 Some e \<Rightarrow> Inl (Throw e)
               | None \<Rightarrow>
                   if \<not> D \<le> length (Origin a) then Inl (Undefined OutOfRange)
                   else if \<not> (D = 0 \<or> D * D \<le> length (Direction a))
                     then Inl (Undefined OutOfRange)
                   else case SetDirection_throws lib dir of
                     Some e \<Rightarrow> Inl (Throw e)
                   | None \<Rightarrow> fill_image lib a i2)"
        unfolding geo' by (simp split: option.splits)
      finally show ?thesis
        using True None by (simp add: fill' split: option.splits)
    qed
  qed
qed

lemma if_Inl_eq_Inr: "((if c then Inl e else m) = Inr x) \<longleftrightarrow> (\<not> c \<and> m = Inr x)"
  by simp

lemma case_option_Inl_eq_Inr:
  "((case opt of Some e \<Rightarrow> Inl (f e) | None \<Rightarrow> m) = Inr x) \<longleftrightarrow> (opt = None \<and> m = Inr x)"
  by (cases opt) simp_all

lemma make_image_Inr_iff:
  fixes lib :: "('r, 's, 'd :: {zero, one}) itk" and rep :: PixelRepresentation
    and a :: "('r, 'd) arguments"
  defines "D \<equiv> ImageDimension rep"
  defines "vl \<equiv> (if image_class rep = VectorImage \<and> 1 < NumberOfComponents a
                   then nat (NumberOfComponents a) else 0)"
  defines "n \<equiv> (case image_class rep of Image \<Rightarrow> 1 | VectorImage \<Rightarrow> vl)"
  defines "sz \<equiv> map SizeValueType_of_int (take D (Size a))"
  defines "dir \<equiv> map (\<lambda>r. map (\<lambda>c. Direction a ! (r * D + c)) [0..<D]) [0..<D]"
  defines "px \<equiv> map (\<lambda>c. convert lib (component_type rep)
                          (FillValue a ! (c mod length (FillValue a)))) [0..<n]"
  shows "make_image lib rep a = Inr img \<longleftrightarrow>
           D \<le> length (Size a) \<and> 0 < n \<and> Allocate_throws lib (prod_list sz * n) = None \<and>
           D \<le> length (Spacing a) \<and> SetSpacing_throws lib (take D (Spacing a)) = None \<and>
           D \<le> length (Origin a) \<and> (D = 0 \<or> D * D \<le> length (Direction a)) \<and>
           SetDirection_throws lib dir = None \<and>
           FillValue a \<noteq> [] \<and> 0 < prod_list sz \<and>
           img = \<lparr>representation = rep, VectorLength = vl, region_index = replicate D 0,
                  region_size = sz, buffer = concat (replicate (prod_list sz) px),
                  spacing = take D (Spacing a), origin = take D (Origin a), direction = dir\<rparr>"
  unfolding D_def vl_def n_def sz_def dir_def px_def
  by (simp only: make_image_eq if_Inl_eq_Inr case_option_Inl_eq_Inr) auto

lemma SizeValueType_of_int_nat: "0 \<le> v \<Longrightarrow> v < 2 ^ 64 \<Longrightarrow> SizeValueType_of_int v = nat v"
  by (simp add: SizeValueType_of_int_def)

lemma map_SizeValueType_of_int:
  assumes "D \<le> length v" and "\<forall>i<D. 0 \<le> v ! i \<and> v ! i < 2 ^ 64"
  shows "map SizeValueType_of_int (take D v) = map nat (take D v)"
  using assms by (auto simp: list_eq_iff_nth_eq SizeValueType_of_int_nat)

lemma int_prod_list_nat:
  "\<forall>x\<in>set xs. 0 \<le> x \<Longrightarrow> int (prod_list (map nat xs)) = prod_list xs"
  by (induction xs) simp_all

lemma allocate_image_Inr_iff:
  fixes lib :: "('r, 's, 'd :: {zero, one}) itk" and rep :: PixelRepresentation
    and a :: "('r, 'd) arguments"
  defines "D \<equiv> ImageDimension rep"
  defines "vl \<equiv> (if image_class rep = VectorImage \<and> 1 < NumberOfComponents a
                   then nat (NumberOfComponents a) else 0)"
  defines "n \<equiv> (case image_class rep of Image \<Rightarrow> 1 | VectorImage \<Rightarrow> vl)"
  defines "sz \<equiv> map SizeValueType_of_int (take D (Size a))"
  shows "allocate_image lib rep a = Inr img \<longleftrightarrow>
           D \<le> length (Size a) \<and> 0 < n \<and> Allocate_throws lib (prod_list sz * n) = None \<and>
           img = (New rep)\<lparr>VectorLength := vl, region_index := replicate D 0, region_size := sz,
                           buffer := map (fresh lib) [0..<prod_list sz * n]\<rparr>"
  unfolding D_def vl_def n_def sz_def
  by (simp only: allocate_image_eq if_Inl_eq_Inr case_option_Inl_eq_Inr) auto

text \<open>When the builder returns an image at all.\<close>

lemma make_image_defined_iff:
  fixes lib :: "('r, 's, 'd :: {zero, one}) itk" and rep :: PixelRepresentation
    and a :: "('r, 'd) arguments"
  defines "D \<equiv> ImageDimension rep"
  defines "n \<equiv> (case image_class rep of Image \<Rightarrow> 1
                   | VectorImage \<Rightarrow> (if image_class rep = VectorImage \<and> 1 < NumberOfComponents a
                                     then nat (NumberOfComponents a) else 0))"
  defines "sz \<equiv> map SizeValueType_of_int (take D (Size a))"
  shows "(\<exists>img. make_image lib rep a = Inr img) \<longleftrightarrow>
           D \<le> length (Size a) \<and> 0 < n \<and> Allocate_throws lib (prod_list sz * n) = None \<and>
           D \<le> length (Spacing a) \<and> SetSpacing_throws lib (take D (Spacing a)) = None \<and>
           D \<le> length (Origin a) \<and> (D = 0 \<or> D * D \<le> length (Direction a)) \<and>
           SetDirection_throws lib
             (map (\<lambda>r. map (\<lambda>c. Direction a ! (r * D + c)) [0..<D]) [0..<D]) = None \<and>
           FillValue a \<noteq> [] \<and> 0 < prod_list sz"
  unfolding make_image_Inr_iff D_def n_def sz_def by simp

section \<open>What the dispatcher does\<close>

lemma DoIt_D_recognized:
  assumes "GetComponentTypeFromString lib scalarType = t"
    and "t \<noteq> UNKNOWNCOMPONENTTYPE" and "t \<noteq> OTHERCOMPONENTTYPE"
  shows "DoIt_D lib D a nc scalarType w =
         DoIt_image lib (template_instance (if 1 < nc then VectorImage else Image) t D) a w"
  using assms by (cases t) (simp_all add: DoIt_D_def)

lemma DoIt_D_unknown:
  assumes "GetComponentTypeFromString lib scalarType = UNKNOWNCOMPONENTTYPE \<or>
           GetComponentTypeFromString lib scalarType = OTHERCOMPONENTTYPE"
  shows "DoIt_D lib D a nc scalarType w =
         (Inr EXIT_FAILURE, w\<lparr>cout := cout w @ [''unknown component type'']\<rparr>)"
  using assms by (auto simp: DoIt_D_def)

lemma make_image_representation:
  "make_image lib rep a = Inr img \<Longrightarrow> representation img = rep"
  by (simp add: make_image_Inr_iff)

lemma make_image_Dimension [simp]:
  "make_image lib rep (a\<lparr>Dimension := d\<rparr>) = make_image lib rep a"
  by (simp add: make_image_def allocate_image_def set_geometry_def fill_image_def Let_def
      cong: if_cong)

lemma DoIt_image_Dimension [simp]:
  "DoIt_image lib rep (a\<lparr>Dimension := d\<rparr>) w = DoIt_image lib rep a w"
  by (cases "make_image lib rep a") (simp_all add: DoIt_image_def Let_def split: option.splits)

lemma DoIt_D_Dimension [simp]:
  "DoIt_D lib D (a\<lparr>Dimension := d\<rparr>) nc st w = DoIt_D lib D a nc st w"
  by (cases "GetComponentTypeFromString lib st") (simp_all add: DoIt_D_def)

lemma make_image_at_most_one_component:
  "NumberOfComponents a \<le> 1 \<Longrightarrow>
     make_image lib rep (a\<lparr>NumberOfComponents := 1\<rparr>) = make_image lib rep a"
  by (simp add: make_image_def allocate_image_def set_geometry_def fill_image_def Let_def
      cong: if_cong)

lemma DoIt_image_at_most_one_component:
  "NumberOfComponents a \<le> 1 \<Longrightarrow>
     DoIt_image lib rep (a\<lparr>NumberOfComponents := 1\<rparr>) w = DoIt_image lib rep a w"
  by (cases "make_image lib rep a")
     (simp_all add: DoIt_image_def make_image_at_most_one_component Let_def
        split: option.splits)

lemma DoIt_D_at_most_one_component:
  "NumberOfComponents a \<le> 1 \<Longrightarrow> nc \<le> 1 \<Longrightarrow>
     DoIt_D lib D (a\<lparr>NumberOfComponents := 1\<rparr>) 1 st w = DoIt_D lib D a nc st w"
  by (cases "GetComponentTypeFromString lib st")
     (simp_all add: DoIt_D_def DoIt_image_at_most_one_component)

lemma make_image_fresh:
  "make_image (lib\<lparr>fresh := g\<rparr>) rep a = make_image lib rep a"
  by (simp add: make_image_eq cong: option.case_cong if_cong)

lemma DoIt_image_fresh:
  "DoIt_image (lib\<lparr>fresh := g\<rparr>) rep a w = DoIt_image lib rep a w"
  by (cases "make_image lib rep a")
     (simp_all add: DoIt_image_def make_image_fresh Let_def split: option.splits)

lemma DoIt_D_fresh:
  "DoIt_D (lib\<lparr>fresh := g\<rparr>) D a nc st w = DoIt_D lib D a nc st w"
  by (cases "GetComponentTypeFromString lib st") (simp_all add: DoIt_D_def DoIt_image_fresh)

lemma main_fresh: "main (lib\<lparr>fresh := g\<rparr>) a w = main lib a w"
  by (simp add: main_def dispatch_def DoIt_D_fresh)

section \<open>Exit status and streams\<close>

lemma DoIt_image_cases:
  "DoIt_image lib rep a w =
     (case make_image lib rep a of
        Inl e \<Rightarrow> (Inl e, w)
      | Inr img \<Rightarrow>
          (case thrown (Update lib img (OutputVolume a)) of
             Some e \<Rightarrow> Inl (Throw e)
           | None \<Rightarrow> Inr EXIT_SUCCESS,
           w\<lparr>cout := cout w @ progress (Update lib img (OutputVolume a)),
              files := (case written (Update lib img (OutputVolume a)) of
                          None \<Rightarrow> files w
                        | Some bytes \<Rightarrow> (files w)(OutputVolume a \<mapsto> bytes))\<rparr>))"
  by (simp add: DoIt_image_def Let_def split: sum.splits option.splits)

lemma DoIt_image_cerr: "cerr (snd (DoIt_image lib rep a w)) = cerr w"
  by (simp add: DoIt_image_cases split: sum.splits)

lemma DoIt_image_Inr: "fst (DoIt_image lib rep a w) = Inr c \<Longrightarrow> c = EXIT_SUCCESS"
  by (simp add: DoIt_image_cases split: sum.splits option.splits)

lemma DoIt_D_cerr: "cerr (snd (DoIt_D lib D a nc st w)) = cerr w"
  by (cases "GetComponentTypeFromString lib st") (simp_all add: DoIt_D_def DoIt_image_cerr)

lemma DoIt_D_Inr:
  assumes "fst (DoIt_D lib D a nc st w) = Inr c"
  shows "c = EXIT_SUCCESS \<or>
         (c = EXIT_FAILURE \<and>
          (GetComponentTypeFromString lib st = UNKNOWNCOMPONENTTYPE \<or>
           GetComponentTypeFromString lib st = OTHERCOMPONENTTYPE))"
  using assms
  by (cases "GetComponentTypeFromString lib st")
     (auto simp: DoIt_D_def dest: DoIt_image_Inr split: if_splits)

lemma dispatch_cerr: "cerr (snd (dispatch lib a w)) = cerr w"
  by (simp add: dispatch_def DoIt_D_cerr)

lemma dispatch_Inr:
  assumes "fst (dispatch lib a w) = Inr c"
  shows "c = EXIT_SUCCESS \<or>
         (c = EXIT_FAILURE \<and>
          (GetComponentTypeFromString lib (ScalarType a) = UNKNOWNCOMPONENTTYPE \<or>
           GetComponentTypeFromString lib (ScalarType a) = OTHERCOMPONENTTYPE))"
  using assms by (auto simp: dispatch_def dest: DoIt_D_Inr split: if_splits)

lemma main_cases:
  "main lib a w =
     (case dispatch lib a w of
        (Inl (Throw (ExceptionObject excep)), w') \<Rightarrow>
          (Inr EXIT_FAILURE,
           w'\<lparr>cerr := cerr w' @ [argv0 a @ '': exception caught !'', excep]\<rparr>)
      | (r, w') \<Rightarrow> (r, w'))"
  by (simp add: main_def)

lemma make_image_OutputVolume [simp]:
  "make_image lib rep (a\<lparr>OutputVolume := name\<rparr>) = make_image lib rep a"
  by (simp add: make_image_def allocate_image_def set_geometry_def fill_image_def Let_def
      cong: if_cong)

section \<open>Evaluating the concrete inputs\<close>

lemma SizeValueType_of_int_2: "SizeValueType_of_int 2 = 2"
  by (simp add: SizeValueType_of_int_def)

lemma upt_0_3: "[0..<3] = [0, 1, 2]"
  by (simp add: upt_conv_Cons)

lemma upt_0_2: "[0..<2] = [0, 1]"
  by (simp add: upt_conv_Cons)

lemma replicate_4: "replicate 4 x = [x, x, x, x]"
  by (simp add: numeral_eq_Suc)

lemma replicate_2: "replicate 2 x = [x, x]"
  by (simp add: numeral_eq_Suc)

lemma example_image_built:
  "make_image example_itk (template_instance VectorImage UCHAR 2) example_arguments
     = Inr example_image"
  by (simp add: make_image_Inr_iff example_itk_def example_arguments_def example_image_def
      template_instance_def SizeValueType_of_int_2 upt_0_3 upt_0_2 replicate_4 replicate_2 numeral_2_eq_2 [symmetric])

lemma spec_tags_uchar: "GetComponentTypeFromString example_itk ''uchar'' = UCHAR"
  by (simp add: example_itk_def spec_tags_def)

lemma example_arguments_fields:
  "Dimension example_arguments = 2" "NumberOfComponents example_arguments = 3"
  "ScalarType example_arguments = ''uchar''" "OutputVolume example_arguments = ''out.nrrd''"
  "argv0 example_arguments = ''ImageMaker''"
  by (simp_all add: example_arguments_def)

lemma example_dispatch:
  assumes "Dimension a = 2" and "NumberOfComponents a = 3" and "ScalarType a = ''uchar''"
  shows "dispatch example_itk a w =
         DoIt_image example_itk (template_instance VectorImage UCHAR 2) a w"
  using assms DoIt_D_recognized [OF spec_tags_uchar, of 2 a 3 w]
  by (simp add: dispatch_def)

section \<open>The claims\<close>

text \<open>
  C1. Let the builder return an image for a number of components of at least 1, run on
  the image class the dispatcher selects for that number (the vector image above 1, the
  scalar image at 1). Then the image has that many components per pixel, its buffer holds
  them for every pixel of the region, and component \<open>c\<close> of every pixel \<open>p\<close> is
  \<open>FillValue[c mod length FillValue]\<close> converted to the scalar type of the representation:
  the same tuple at every pixel. Dimension and scalar type are arbitrary.
\<close>

theorem uniform_fill:
  assumes built: "make_image lib rep a = Inr img"
    and nc: "1 \<le> NumberOfComponents a"
    and cls: "image_class rep = (if 1 < NumberOfComponents a then VectorImage else Image)"
  shows "FillValue a \<noteq> [] \<and>
         GetNumberOfComponentsPerPixel img = nat (NumberOfComponents a) \<and>
         length (buffer img) = GetNumberOfPixels img * nat (NumberOfComponents a) \<and>
         (\<forall>p<GetNumberOfPixels img. \<forall>c<nat (NumberOfComponents a).
            buffer img ! (p * nat (NumberOfComponents a) + c) =
              convert lib (component_type rep) (FillValue a ! (c mod length (FillValue a))))"
proof -
  let ?n = "nat (NumberOfComponents a)"
  let ?px = "map (\<lambda>c. convert lib (component_type rep)
                          (FillValue a ! (c mod length (FillValue a)))) [0..<?n]"
  have n: "(case image_class rep of Image \<Rightarrow> 1
            | VectorImage \<Rightarrow> (if image_class rep = VectorImage \<and> 1 < NumberOfComponents a
                              then nat (NumberOfComponents a) else 0)) = ?n"
    using nc cls by (auto split: ImageClass.splits)
  from built [unfolded make_image_Inr_iff n]
  have fv: "FillValue a \<noteq> []"
    and img: "img = \<lparr>representation = rep,
        VectorLength = (if image_class rep = VectorImage \<and> 1 < NumberOfComponents a
                        then nat (NumberOfComponents a) else 0),
        region_index = replicate (ImageDimension rep) 0,
        region_size = map SizeValueType_of_int (take (ImageDimension rep) (Size a)),
        buffer = concat (replicate
           (prod_list (map SizeValueType_of_int (take (ImageDimension rep) (Size a)))) ?px),
        spacing = take (ImageDimension rep) (Spacing a),
        origin = take (ImageDimension rep) (Origin a),
        direction = map (\<lambda>r. map (\<lambda>c. Direction a ! (r * ImageDimension rep + c))
                                 [0..<ImageDimension rep]) [0..<ImageDimension rep]\<rparr>"
    by blast+
  have lpx: "length ?px = ?n" by simp
  have cpp: "GetNumberOfComponentsPerPixel img = ?n"
    using nc cls by (simp add: img GetNumberOfComponentsPerPixel_def split: ImageClass.splits)
  have np: "GetNumberOfPixels img =
      prod_list (map SizeValueType_of_int (take (ImageDimension rep) (Size a)))"
    by (simp add: img GetNumberOfPixels_def)
  have buf: "buffer img = concat (replicate (GetNumberOfPixels img) ?px)"
    unfolding np by (simp add: img)
  have len: "length (buffer img) = GetNumberOfPixels img * ?n"
    unfolding buf length_concat_replicate lpx ..
  have vals: "\<forall>p<GetNumberOfPixels img. \<forall>c<?n.
      buffer img ! (p * ?n + c) =
        convert lib (component_type rep) (FillValue a ! (c mod length (FillValue a)))"
  proof (intro allI impI)
    fix p c assume p: "p < GetNumberOfPixels img" and c: "c < ?n"
    from c have c': "c < length ?px" by simp
    from concat_replicate_nth [OF p c'] have "buffer img ! (p * ?n + c) = ?px ! c"
      unfolding buf lpx .
    also have "\<dots> = convert lib (component_type rep) (FillValue a ! (c mod length (FillValue a)))"
      using c by simp
    finally show "buffer img ! (p * ?n + c) =
        convert lib (component_type rep) (FillValue a ! (c mod length (FillValue a)))" .
  qed
  from fv cpp len vals show ?thesis by blast
qed

theorem uniform_fill_witness:
  "make_image example_itk (template_instance VectorImage UCHAR 2) example_arguments
     = Inr example_image \<and>
   GetNumberOfComponentsPerPixel example_image = 3 \<and>
   length (buffer example_image) = GetNumberOfPixels example_image * 3 \<and>
   GetNumberOfPixels example_image = 4 \<and>
   buffer example_image ! (3 * 3 + 1) = 20"
proof -
  have nc: "1 \<le> NumberOfComponents example_arguments"
    by (simp add: example_arguments_def)
  have cls: "image_class (template_instance VectorImage UCHAR 2) =
      (if 1 < NumberOfComponents example_arguments then VectorImage else Image)"
    by (simp add: example_arguments_def template_instance_def)
  have n: "nat (NumberOfComponents example_arguments) = 3"
    by (simp add: example_arguments_def)
  have np: "GetNumberOfPixels example_image = 4"
    by (simp add: GetNumberOfPixels_def example_image_def)
  note u = uniform_fill [OF example_image_built nc cls, unfolded n]
  from u have 1: "GetNumberOfComponentsPerPixel example_image = 3"
    and 2: "length (buffer example_image) = GetNumberOfPixels example_image * 3"
    and 3: "\<forall>p<GetNumberOfPixels example_image. \<forall>c<3.
      buffer example_image ! (p * 3 + c) =
        convert example_itk (component_type (template_instance VectorImage UCHAR 2))
          (FillValue example_arguments ! (c mod length (FillValue example_arguments)))"
    by blast+
  from 3 [rule_format, of 3 1] np have "buffer example_image ! (3 * 3 + 1) =
        convert example_itk (component_type (template_instance VectorImage UCHAR 2))
          (FillValue example_arguments ! (1 mod length (FillValue example_arguments)))"
    by simp
  also have "\<dots> = 20"
    by (simp add: example_itk_def example_arguments_def template_instance_def)
  finally have 4: "buffer example_image ! (3 * 3 + 1) = 20" .
  from example_image_built 1 2 np 4 show ?thesis by blast
qed

text \<open>
  C2. Let the number of components be at least 1, the image class the one the dispatcher
  selects for it, and let \<open>Size\<close> hold at least \<open>D\<close> entries, the first \<open>D\<close> of them
  non-negative (and below \<open>2^64\<close>, as every \<open>int\<close> is). Then the image the builder holds
  after \<open>Allocate()\<close>, and every image it finally returns, has a region whose size on
  axis \<open>i\<close> is \<open>Size[i]\<close>, whose start index is 0 on every axis whatever \<open>Origin\<close> is, and
  a buffer of exactly \<open>NumberOfComponents\<close> times the product of the first \<open>D\<close> sizes
  scalars. The allocation step ends abnormally only when the allocator throws.
\<close>

theorem region_and_buffer_size:
  fixes lib :: "('r, 's, 'd :: {zero, one}) itk"
  assumes nc: "1 \<le> NumberOfComponents a"
    and cls: "image_class rep = (if 1 < NumberOfComponents a then VectorImage else Image)"
    and len: "ImageDimension rep \<le> length (Size a)"
    and nonneg: "\<forall>i<ImageDimension rep. 0 \<le> Size a ! i \<and> Size a ! i < 2 ^ 64"
  shows "(\<forall>img. allocate_image lib rep a = Inr img \<or> make_image lib rep a = Inr img \<longrightarrow>
            length (region_size img) = ImageDimension rep \<and>
            (\<forall>i<ImageDimension rep. int (region_size img ! i) = Size a ! i) \<and>
            region_index img = replicate (ImageDimension rep) 0 \<and>
            int (length (buffer img)) =
              NumberOfComponents a * prod_list (take (ImageDimension rep) (Size a))) \<and>
         (Allocate_throws lib
            (nat (NumberOfComponents a * prod_list (take (ImageDimension rep) (Size a)))) = None
          \<longrightarrow> (\<exists>img. allocate_image lib rep a = Inr img)) \<and>
         (\<forall>e. allocate_image lib rep a = Inl e \<longrightarrow>
            (\<exists>x. e = Throw x \<and>
               Allocate_throws lib
                 (nat (NumberOfComponents a * prod_list (take (ImageDimension rep) (Size a))))
               = Some x))"
proof -
  let ?D = "ImageDimension rep"
  let ?n = "nat (NumberOfComponents a)"
  let ?sz = "map SizeValueType_of_int (take ?D (Size a))"
  let ?vl = "(if image_class rep = VectorImage \<and> 1 < NumberOfComponents a
                   then nat (NumberOfComponents a) else 0)"
  have n: "(case image_class rep of Image \<Rightarrow> 1 | VectorImage \<Rightarrow> ?vl) = ?n"
    using nc cls by (auto split: ImageClass.splits)
  have sz: "?sz = map nat (take ?D (Size a))"
    using len nonneg by (rule map_SizeValueType_of_int)
  have pos: "\<forall>x\<in>set (take ?D (Size a)). 0 \<le> x"
    using len nonneg by (auto simp: in_set_conv_nth)
  have prod: "int (prod_list ?sz) = prod_list (take ?D (Size a))"
    unfolding sz using pos by (rule int_prod_list_nat)
  have total: "int (prod_list ?sz * ?n) = NumberOfComponents a * prod_list (take ?D (Size a))"
    using nc prod by (simp add: mult.commute)
  then have total': "nat (NumberOfComponents a * prod_list (take ?D (Size a))) = prod_list ?sz * ?n"
    by (metis nat_int)
  have szi: "\<forall>i<?D. int (?sz ! i) = Size a ! i"
    unfolding sz using len nonneg by simp
  have lsz: "length ?sz = ?D" using len by simp
  note alloc = allocate_image_eq [of lib rep a, unfolded n]
  have npos: "0 < ?n" using nc by simp
  have A: "allocate_image lib rep a = Inr img \<Longrightarrow>
            length (region_size img) = ?D \<and> (\<forall>i<?D. int (region_size img ! i) = Size a ! i) \<and>
            region_index img = replicate ?D 0 \<and>
            int (length (buffer img)) = NumberOfComponents a * prod_list (take ?D (Size a))" for img
  proof -
    assume "allocate_image lib rep a = Inr img"
    then have img: "img = (New rep)\<lparr>VectorLength := ?vl, region_index := replicate ?D 0,
        region_size := ?sz, buffer := map (fresh lib) [0..<prod_list ?sz * ?n]\<rparr>"
      unfolding allocate_image_Inr_iff n by blast
    show ?thesis
      unfolding img using lsz szi total by simp
  qed
  have M: "make_image lib rep a = Inr img \<Longrightarrow>
            length (region_size img) = ?D \<and> (\<forall>i<?D. int (region_size img ! i) = Size a ! i) \<and>
            region_index img = replicate ?D 0 \<and>
            int (length (buffer img)) = NumberOfComponents a * prod_list (take ?D (Size a))" for img
  proof -
    assume "make_image lib rep a = Inr img"
    then have r: "region_size img = ?sz" "region_index img = replicate ?D 0"
      "buffer img = concat (replicate (prod_list ?sz)
          (map (\<lambda>c. convert lib (component_type rep)
             (FillValue a ! (c mod length (FillValue a)))) [0..<?n]))"
      unfolding make_image_Inr_iff n by simp_all
    show ?thesis
      unfolding r length_concat_replicate using lsz szi total by simp
  qed
  have E: "Allocate_throws lib (nat (NumberOfComponents a * prod_list (take ?D (Size a)))) = None
          \<Longrightarrow> \<exists>img. allocate_image lib rep a = Inr img"
    unfolding total' alloc using len npos by simp
  have F: "allocate_image lib rep a = Inl e \<Longrightarrow>
            (\<exists>x. e = Throw x \<and>
               Allocate_throws lib (nat (NumberOfComponents a * prod_list (take ?D (Size a))))
               = Some x)" for e
    unfolding total' alloc using len npos by (auto split: option.splits)
  from A M E F show ?thesis by blast
qed

theorem region_and_buffer_size_witness:
  "length (region_size example_image) = 2 \<and>
   int (region_size example_image ! 0) = 2 \<and> int (region_size example_image ! 1) = 2 \<and>
   region_index example_image = [0, 0] \<and>
   int (length (buffer example_image)) = 3 * (2 * 2) \<and>
   (\<exists>img. allocate_image example_itk (template_instance VectorImage UCHAR 2)
            example_arguments = Inr img)"
proof -
  let ?rep = "template_instance VectorImage UCHAR 2"
  have D: "ImageDimension ?rep = 2" by (simp add: template_instance_def)
  have nc: "1 \<le> NumberOfComponents example_arguments"
    by (simp add: example_arguments_def)
  have cls: "image_class ?rep =
      (if 1 < NumberOfComponents example_arguments then VectorImage else Image)"
    by (simp add: example_arguments_def template_instance_def)
  have len: "ImageDimension ?rep \<le> length (Size example_arguments)"
    by (simp add: example_arguments_def template_instance_def)
  have nonneg: "\<forall>i<ImageDimension ?rep.
      0 \<le> Size example_arguments ! i \<and> Size example_arguments ! i < 2 ^ 64"
    by (simp add: example_arguments_def template_instance_def less_Suc_eq numeral_2_eq_2)
  have total: "NumberOfComponents example_arguments *
      prod_list (take 2 (Size example_arguments)) = 3 * (2 * 2)"
    by (simp add: example_arguments_def)
  have ok: "Allocate_throws example_itk (nat (3 * (2 * 2))) = None"
    by (simp add: example_itk_def)
  note r = region_and_buffer_size [of example_arguments ?rep example_itk,
      OF nc cls len nonneg, unfolded D total]
  from r ok have ex: "\<exists>img. allocate_image example_itk ?rep example_arguments = Inr img"
    by blast
  from r example_image_built have
    "length (region_size example_image) = 2 \<and>
     (\<forall>i<2. int (region_size example_image ! i) = Size example_arguments ! i) \<and>
     region_index example_image = replicate 2 0 \<and>
     int (length (buffer example_image)) = 3 * (2 * 2)"
    by blast
  then have "length (region_size example_image) = 2"
    and "int (region_size example_image ! 0) = Size example_arguments ! 0"
    and "int (region_size example_image ! 1) = Size example_arguments ! 1"
    and "region_index example_image = replicate 2 0"
    and "int (length (buffer example_image)) = 3 * (2 * 2)"
    by simp_all
  with ex show ?thesis
    by (simp add: example_arguments_def replicate_2)
qed

text \<open>
  C3. For a scalar type tag that the library maps to one of the ten enumerators the
  switch names, the dispatcher runs, for any \<open>D\<close>, the builder of the vector image of that
  scalar type when the number of components exceeds 1 and the builder of the scalar image
  when it is 1; and an image a builder returns is of the class and scalar type the builder
  was instantiated for, so one component never gives a vector image.
\<close>

theorem component_count_routing:
  assumes "GetComponentTypeFromString lib scalarType = t"
    and "t \<noteq> UNKNOWNCOMPONENTTYPE" and "t \<noteq> OTHERCOMPONENTTYPE"
  shows "(1 < nc \<longrightarrow>
            DoIt_D lib D a nc scalarType w =
              DoIt_image lib (template_instance VectorImage t D) a w) \<and>
         (nc = 1 \<longrightarrow>
            DoIt_D lib D a nc scalarType w =
              DoIt_image lib (template_instance Image t D) a w) \<and>
         (\<forall>cls img. make_image lib (template_instance cls t D) a = Inr img \<longrightarrow>
            image_class (representation img) = cls \<and>
            component_type (representation img) = t \<and>
            ImageDimension (representation img) = D)"
proof (intro conjI impI allI)
  assume "1 < nc"
  then show "DoIt_D lib D a nc scalarType w =
      DoIt_image lib (template_instance VectorImage t D) a w"
    by (simp add: DoIt_D_recognized [OF assms])
next
  assume "nc = 1"
  then show "DoIt_D lib D a nc scalarType w =
      DoIt_image lib (template_instance Image t D) a w"
    by (simp add: DoIt_D_recognized [OF assms])
next
  fix cls img assume b: "make_image lib (template_instance cls t D) a = Inr img"
  show "image_class (representation img) = cls"
    and "component_type (representation img) = t"
    and "ImageDimension (representation img) = D"
    by (simp_all add: make_image_representation [OF b] template_instance_def)
qed

theorem component_count_routing_witness:
  "DoIt_D example_itk 2 example_arguments 3 ''uchar'' example_world =
     DoIt_image example_itk (template_instance VectorImage UCHAR 2) example_arguments
       example_world \<and>
   DoIt_D example_itk 2 example_arguments 1 ''uchar'' example_world =
     DoIt_image example_itk (template_instance Image UCHAR 2) example_arguments
       example_world \<and>
   image_class (representation example_image) = VectorImage"
proof -
  have u: "UCHAR \<noteq> UNKNOWNCOMPONENTTYPE" "UCHAR \<noteq> OTHERCOMPONENTTYPE" by simp_all
  note r = component_count_routing [OF spec_tags_uchar u]
  from r [of 3 2 example_arguments example_world]
  have 1: "DoIt_D example_itk 2 example_arguments 3 ''uchar'' example_world =
     DoIt_image example_itk (template_instance VectorImage UCHAR 2) example_arguments
       example_world" by simp
  from r [of 1 2 example_arguments example_world]
  have 2: "DoIt_D example_itk 2 example_arguments 1 ''uchar'' example_world =
     DoIt_image example_itk (template_instance Image UCHAR 2) example_arguments
       example_world" by simp
  from r [of 3 2 example_arguments example_world] example_image_built
  have 3: "image_class (representation example_image) = VectorImage" by blast
  from 1 2 3 show ?thesis by blast
qed

text \<open>
  C4. A value of \<open>Dimension\<close> other than 1, 2 and 3 is no error: the switch of \<open>main\<close>
  runs the three-dimensional dispatcher on the unchanged arguments, and the whole run is
  the run for the same arguments with \<open>Dimension\<close> 3. For 1, 2 and 3 the dispatcher of
  that very dimension runs.
\<close>

theorem dimension_fallback:
  "(Dimension a \<notin> {1, 2, 3} \<longrightarrow>
      dispatch lib a w = DoIt_D lib 3 a (NumberOfComponents a) (ScalarType a) w \<and>
      dispatch lib a w = dispatch lib (a\<lparr>Dimension := 3\<rparr>) w \<and>
      main lib a w = main lib (a\<lparr>Dimension := 3\<rparr>) w) \<and>
   (Dimension a \<in> {1, 2, 3} \<longrightarrow>
      dispatch lib a w =
        DoIt_D lib (nat (Dimension a)) a (NumberOfComponents a) (ScalarType a) w)"
proof (intro conjI impI)
  assume d: "Dimension a \<notin> {1, 2, 3}"
  then show 1: "dispatch lib a w = DoIt_D lib 3 a (NumberOfComponents a) (ScalarType a) w"
    by (simp add: dispatch_def)
  show 2: "dispatch lib a w = dispatch lib (a\<lparr>Dimension := 3\<rparr>) w"
    unfolding 1 by (simp add: dispatch_def)
  show "main lib a w = main lib (a\<lparr>Dimension := 3\<rparr>) w"
    by (simp add: main_def 2 split: prod.splits sum.splits abnormal.splits exception.splits)
next
  assume "Dimension a \<in> {1, 2, 3}"
  then show "dispatch lib a w =
      DoIt_D lib (nat (Dimension a)) a (NumberOfComponents a) (ScalarType a) w"
    by (auto simp: dispatch_def)
qed

theorem dimension_fallback_witness:
  "main example_itk (example_arguments\<lparr>Dimension := 7\<rparr>) example_world =
     main example_itk (example_arguments\<lparr>Dimension := 3\<rparr>) example_world \<and>
   dispatch example_itk (example_arguments\<lparr>Dimension := 0\<rparr>) example_world =
     DoIt_D example_itk 3 (example_arguments\<lparr>Dimension := 0\<rparr>) 3 ''uchar'' example_world \<and>
   dispatch example_itk example_arguments example_world =
     DoIt_D example_itk 2 example_arguments 3 ''uchar'' example_world"
proof -
  have 7: "Dimension (example_arguments\<lparr>Dimension := 7\<rparr>) \<notin> {1, 2, 3}" by simp
  have 0: "Dimension (example_arguments\<lparr>Dimension := 0\<rparr>) \<notin> {1, 2, 3}" by simp
  have 2: "Dimension example_arguments \<in> {1, 2, 3}" by (simp add: example_arguments_def)
  from dimension_fallback [of "example_arguments\<lparr>Dimension := 7\<rparr>" example_itk example_world] 7
  have a: "main example_itk (example_arguments\<lparr>Dimension := 7\<rparr>) example_world =
     main example_itk (example_arguments\<lparr>Dimension := 7, Dimension := 3\<rparr>) example_world"
    by blast
  from dimension_fallback [of "example_arguments\<lparr>Dimension := 0\<rparr>" example_itk example_world] 0
  have b: "dispatch example_itk (example_arguments\<lparr>Dimension := 0\<rparr>) example_world =
     DoIt_D example_itk 3 (example_arguments\<lparr>Dimension := 0\<rparr>)
       (NumberOfComponents (example_arguments\<lparr>Dimension := 0\<rparr>))
       (ScalarType (example_arguments\<lparr>Dimension := 0\<rparr>)) example_world"
    by blast
  from dimension_fallback [of example_arguments example_itk example_world] 2
  have c: "dispatch example_itk example_arguments example_world =
     DoIt_D example_itk (nat (Dimension example_arguments)) example_arguments
       (NumberOfComponents example_arguments) (ScalarType example_arguments) example_world"
    by blast
  have v: "NumberOfComponents example_arguments = 3" "ScalarType example_arguments = ''uchar''"
    "nat (Dimension example_arguments) = 2"
    by (simp_all add: example_arguments_def)
  from a b c show ?thesis by (simp add: v)
qed

text \<open>
  C5. When the library maps the scalar type tag to none of the ten enumerators the switch
  names, the dispatcher returns normally with \<open>EXIT_FAILURE\<close> (which differs from
  \<open>EXIT_SUCCESS\<close>), having printed the line \<open>unknown component type\<close> on standard output
  and done nothing else: no file is written, whatever builder and writer would have done,
  and \<open>main\<close> returns the same.
\<close>

theorem unknown_scalar_type_fails:
  assumes "GetComponentTypeFromString lib scalarType
             \<notin> {UCHAR, CHAR', USHORT, SHORT, UINT, INT', ULONG, LONG, FLOAT, DOUBLE}"
  shows "DoIt_D lib D a nc scalarType w =
           (Inr EXIT_FAILURE, w\<lparr>cout := cout w @ [''unknown component type'']\<rparr>) \<and>
         files (snd (DoIt_D lib D a nc scalarType w)) = files w \<and>
         EXIT_FAILURE \<noteq> EXIT_SUCCESS \<and>
         (ScalarType a = scalarType \<longrightarrow>
            main lib a w =
              (Inr EXIT_FAILURE, w\<lparr>cout := cout w @ [''unknown component type'']\<rparr>))"
proof -
  from assms have u: "GetComponentTypeFromString lib scalarType = UNKNOWNCOMPONENTTYPE \<or>
           GetComponentTypeFromString lib scalarType = OTHERCOMPONENTTYPE"
    by (cases "GetComponentTypeFromString lib scalarType") simp_all
  have d: "DoIt_D lib D a nc scalarType w =
           (Inr EXIT_FAILURE, w\<lparr>cout := cout w @ [''unknown component type'']\<rparr>)" for D
    by (rule DoIt_D_unknown [OF u])
  have m: "main lib a w =
      (Inr EXIT_FAILURE, w\<lparr>cout := cout w @ [''unknown component type'']\<rparr>)"
    if "ScalarType a = scalarType"
    using that DoIt_D_unknown [OF u, of _ a "NumberOfComponents a" w]
    by (simp add: main_def dispatch_def)
  from d [of D] m show ?thesis
    by (simp add: EXIT_FAILURE_def EXIT_SUCCESS_def)
qed

theorem unknown_scalar_type_fails_witness:
  "main example_itk (example_arguments\<lparr>ScalarType := ''bogus''\<rparr>) example_world =
     (Inr EXIT_FAILURE, example_world\<lparr>cout := [''unknown component type'']\<rparr>) \<and>
   files (snd (DoIt_D example_itk 2 example_arguments 3 ''bogus'' example_world)) = Map.empty"
proof -
  have b: "GetComponentTypeFromString example_itk ''bogus''
             \<notin> {UCHAR, CHAR', USHORT, SHORT, UINT, INT', ULONG, LONG, FLOAT, DOUBLE}"
    by (simp add: example_itk_def spec_tags_def)
  have s: "ScalarType (example_arguments\<lparr>ScalarType := ''bogus''\<rparr>) = ''bogus''" by simp
  from unknown_scalar_type_fails [OF b, of 2 "example_arguments\<lparr>ScalarType := ''bogus''\<rparr>" _
      example_world] s
  have 1: "main example_itk (example_arguments\<lparr>ScalarType := ''bogus''\<rparr>) example_world =
     (Inr EXIT_FAILURE, example_world\<lparr>cout := cout example_world @ [''unknown component type'']\<rparr>)"
    by blast
  from unknown_scalar_type_fails [OF b, of 2 example_arguments 3 example_world]
  have 2: "files (snd (DoIt_D example_itk 2 example_arguments 3 ''bogus'' example_world))
      = files example_world" by blast
  from 1 2 show ?thesis by (simp add: example_world_def)
qed

text \<open>
  C6. Every image the builder returns carries the first \<open>D\<close> entries of \<open>Spacing\<close> and of
  \<open>Origin\<close> unchanged, and a \<open>D\<close> by \<open>D\<close> direction matrix whose entry in row \<open>r\<close> and
  column \<open>c\<close> is \<open>Direction[r * D + c]\<close>. The program checks none of the values: if it
  returns an image for one geometry, it returns one for every other geometry with enough
  entries that the setters of the library accept.
\<close>

theorem geometry_verbatim:
  fixes lib :: "('r, 's, 'd :: {zero, one}) itk"
  assumes built: "make_image lib rep a = Inr img"
  shows "spacing img = take (ImageDimension rep) (Spacing a) \<and>
         length (spacing img) = ImageDimension rep \<and>
         origin img = take (ImageDimension rep) (Origin a) \<and>
         length (origin img) = ImageDimension rep \<and>
         length (direction img) = ImageDimension rep \<and>
         (\<forall>r<ImageDimension rep. length (direction img ! r) = ImageDimension rep \<and>
            (\<forall>c<ImageDimension rep.
               direction img ! r ! c = Direction a ! (r * ImageDimension rep + c))) \<and>
         (\<forall>sp og dr.
            ImageDimension rep \<le> length sp \<and> ImageDimension rep \<le> length og \<and>
            ImageDimension rep * ImageDimension rep \<le> length dr \<and>
            SetSpacing_throws lib (take (ImageDimension rep) sp) = None \<and>
            SetDirection_throws lib
              (map (\<lambda>r. map (\<lambda>c. dr ! (r * ImageDimension rep + c)) [0..<ImageDimension rep])
                 [0..<ImageDimension rep]) = None
            \<longrightarrow> (\<exists>other. make_image lib rep (a\<lparr>Spacing := sp, Origin := og, Direction := dr\<rparr>)
                        = Inr other))"
proof -
  let ?D = "ImageDimension rep"
  from built [unfolded make_image_Inr_iff]
  have c: "?D \<le> length (Spacing a)" "?D \<le> length (Origin a)"
    and s: "spacing img = take ?D (Spacing a)"
    and o: "origin img = take ?D (Origin a)"
    and d: "direction img = map (\<lambda>r. map (\<lambda>c. Direction a ! (r * ?D + c)) [0..<?D]) [0..<?D]"
    by simp_all
  have 1: "length (spacing img) = ?D" "length (origin img) = ?D" "length (direction img) = ?D"
    using c by (simp_all add: s o d)
  have 2: "\<forall>r<?D. length (direction img ! r) = ?D \<and>
            (\<forall>c<?D. direction img ! r ! c = Direction a ! (r * ?D + c))"
    by (simp add: d)
  have 3: "\<exists>other. make_image lib rep (a\<lparr>Spacing := sp, Origin := og, Direction := dr\<rparr>) = Inr other"
    if "?D \<le> length sp \<and> ?D \<le> length og \<and> ?D * ?D \<le> length dr \<and>
        SetSpacing_throws lib (take ?D sp) = None \<and>
        SetDirection_throws lib (map (\<lambda>r. map (\<lambda>c. dr ! (r * ?D + c)) [0..<?D]) [0..<?D]) = None"
    for sp og dr
  proof -
    from built have "\<exists>img. make_image lib rep a = Inr img" ..
    with that show ?thesis
      unfolding make_image_defined_iff
      by (cases "image_class rep") (auto split: if_splits)
  qed
  from s o 1 2 3 show ?thesis by blast
qed

theorem geometry_verbatim_witness:
  "spacing example_image = [1, 1] \<and> origin example_image = [0, 0] \<and>
   length (direction example_image) = 2 \<and>
   direction example_image ! 1 ! 0 = Direction example_arguments ! (1 * 2 + 0) \<and>
   (\<exists>other. make_image example_itk (template_instance VectorImage UCHAR 2)
       (example_arguments\<lparr>Spacing := [- 3, 0], Origin := [7, - 7], Direction := [2, 0, 2, 0]\<rparr>)
       = Inr other)"
proof -
  let ?rep = "template_instance VectorImage UCHAR 2"
  have D: "ImageDimension ?rep = 2" by (simp add: template_instance_def)
  note g = geometry_verbatim [OF example_image_built, unfolded D]
  from g have s: "spacing example_image = take 2 (Spacing example_arguments)"
    and o: "origin example_image = take 2 (Origin example_arguments)"
    and l: "length (direction example_image) = 2"
    and d: "\<forall>r<2. length (direction example_image ! r) = 2 \<and>
            (\<forall>c<2. direction example_image ! r ! c = Direction example_arguments ! (r * 2 + c))"
    by blast+
  from d have d10: "direction example_image ! 1 ! 0 = Direction example_arguments ! (1 * 2 + 0)"
    by simp
  have acc: "(2::nat) \<le> length [- 3, 0 :: int] \<and> (2::nat) \<le> length [7, - 7 :: int] \<and>
          (2::nat) * 2 \<le> length [2, 0, 2, 0 :: int] \<and>
          SetSpacing_throws example_itk (take 2 [- 3, 0]) = None \<and>
          SetDirection_throws example_itk
            (map (\<lambda>r. map (\<lambda>c. [2, 0, 2, 0] ! (r * 2 + c)) [0..<2]) [0..<2]) = None"
    by (simp add: example_itk_def)
  from g have "\<forall>sp og dr.
            2 \<le> length sp \<and> 2 \<le> length og \<and> 2 * 2 \<le> length dr \<and>
            SetSpacing_throws example_itk (take 2 sp) = None \<and>
            SetDirection_throws example_itk
              (map (\<lambda>r. map (\<lambda>c. dr ! (r * 2 + c)) [0..<2]) [0..<2]) = None
            \<longrightarrow> (\<exists>other. make_image example_itk ?rep
                  (example_arguments\<lparr>Spacing := sp, Origin := og, Direction := dr\<rparr>) = Inr other)"
    by blast
  from this [rule_format, OF acc]
  have e: "\<exists>other. make_image example_itk ?rep
       (example_arguments\<lparr>Spacing := [- 3, 0], Origin := [7, - 7], Direction := [2, 0, 2, 0]\<rparr>)
       = Inr other" .
  from s o l d10 e show ?thesis
    by (simp add: example_arguments_def)
qed

text \<open>
  C7, as the code has it. No \<open>itk::ExceptionObject\<close> leaves \<open>main\<close>: one thrown during
  the pipeline is caught, two lines go to the error stream and the status is
  \<open>EXIT_FAILURE\<close>. An unrecognised scalar type gives \<open>EXIT_FAILURE\<close> too, but its
  diagnostic goes to standard output and the error stream stays as it was. A pipeline
  that returns normally leaves the error stream alone, and returns \<open>EXIT_SUCCESS\<close>, which is
  0, unless the scalar type was unrecognised; in particular a run whose image is built and
  whose writer does not throw returns 0.
\<close>

theorem exit_status:
  "(\<forall>d. fst (main lib a w) \<noteq> Inl (Throw (ExceptionObject d))) \<and>
   (\<forall>d w'. dispatch lib a w = (Inl (Throw (ExceptionObject d)), w') \<longrightarrow>
      main lib a w =
        (Inr EXIT_FAILURE, w'\<lparr>cerr := cerr w @ [argv0 a @ '': exception caught !'', d]\<rparr>)) \<and>
   (GetComponentTypeFromString lib (ScalarType a)
      \<notin> {UCHAR, CHAR', USHORT, SHORT, UINT, INT', ULONG, LONG, FLOAT, DOUBLE} \<longrightarrow>
      main lib a w =
        (Inr EXIT_FAILURE, w\<lparr>cout := cout w @ [''unknown component type'']\<rparr>)) \<and>
   (\<forall>c w'. dispatch lib a w = (Inr c, w') \<longrightarrow>
      main lib a w = (Inr c, w') \<and> cerr w' = cerr w \<and>
      (c = EXIT_SUCCESS \<or>
       (c = EXIT_FAILURE \<and>
        GetComponentTypeFromString lib (ScalarType a)
          \<notin> {UCHAR, CHAR', USHORT, SHORT, UINT, INT', ULONG, LONG, FLOAT, DOUBLE}))) \<and>
   (\<forall>rep img. dispatch lib a w = DoIt_image lib rep a w \<and> make_image lib rep a = Inr img \<and>
      thrown (Update lib img (OutputVolume a)) = None \<longrightarrow>
      fst (main lib a w) = Inr EXIT_SUCCESS) \<and>
   EXIT_SUCCESS = 0 \<and> EXIT_FAILURE \<noteq> 0"
proof -
  have 1: "fst (main lib a w) \<noteq> Inl (Throw (ExceptionObject d))" for d
    by (simp add: main_cases split: prod.splits sum.splits abnormal.splits exception.splits)
  have 2: "main lib a w =
        (Inr EXIT_FAILURE, w'\<lparr>cerr := cerr w @ [argv0 a @ '': exception caught !'', d]\<rparr>)"
    if "dispatch lib a w = (Inl (Throw (ExceptionObject d)), w')" for d w'
  proof -
    from that dispatch_cerr [of lib a w] have "cerr w' = cerr w" by simp
    with that show ?thesis by (simp add: main_cases)
  qed
  have 3: "main lib a w =
        (Inr EXIT_FAILURE, w\<lparr>cout := cout w @ [''unknown component type'']\<rparr>)"
    if "GetComponentTypeFromString lib (ScalarType a)
      \<notin> {UCHAR, CHAR', USHORT, SHORT, UINT, INT', ULONG, LONG, FLOAT, DOUBLE}"
  proof -
    from that have u: "GetComponentTypeFromString lib (ScalarType a) = UNKNOWNCOMPONENTTYPE \<or>
           GetComponentTypeFromString lib (ScalarType a) = OTHERCOMPONENTTYPE"
      by (cases "GetComponentTypeFromString lib (ScalarType a)") simp_all
    show ?thesis
      by (simp add: main_cases dispatch_def DoIt_D_unknown [OF u])
  qed
  have 4: "main lib a w = (Inr c, w') \<and> cerr w' = cerr w \<and>
      (c = EXIT_SUCCESS \<or>
       (c = EXIT_FAILURE \<and>
        GetComponentTypeFromString lib (ScalarType a)
          \<notin> {UCHAR, CHAR', USHORT, SHORT, UINT, INT', ULONG, LONG, FLOAT, DOUBLE}))"
    if "dispatch lib a w = (Inr c, w')" for c w'
  proof -
    from that dispatch_cerr [of lib a w] have e: "cerr w' = cerr w" by simp
    from that have "fst (dispatch lib a w) = Inr c" by simp
    from dispatch_Inr [OF this] have "c = EXIT_SUCCESS \<or>
       (c = EXIT_FAILURE \<and>
        GetComponentTypeFromString lib (ScalarType a)
          \<notin> {UCHAR, CHAR', USHORT, SHORT, UINT, INT', ULONG, LONG, FLOAT, DOUBLE})"
      by auto
    with that e show ?thesis by (simp add: main_cases)
  qed
  have 5: "fst (main lib a w) = Inr EXIT_SUCCESS"
    if "dispatch lib a w = DoIt_image lib rep a w \<and> make_image lib rep a = Inr img \<and>
      thrown (Update lib img (OutputVolume a)) = None" for rep img
    using that by (simp add: main_cases DoIt_image_cases)
  have 6: "EXIT_SUCCESS = 0 \<and> EXIT_FAILURE \<noteq> 0"
    by (simp add: EXIT_SUCCESS_def EXIT_FAILURE_def)
  from 1 2 3 4 5 6 show ?thesis by blast
qed

theorem unknown_type_diagnostic_on_stdout:
  "fst (main example_itk (example_arguments\<lparr>ScalarType := ''bogus''\<rparr>) example_world)
     = Inr EXIT_FAILURE \<and>
   EXIT_FAILURE \<noteq> EXIT_SUCCESS \<and>
   cerr (snd (main example_itk (example_arguments\<lparr>ScalarType := ''bogus''\<rparr>) example_world))
     = [] \<and>
   cout (snd (main example_itk (example_arguments\<lparr>ScalarType := ''bogus''\<rparr>) example_world))
     = [''unknown component type'']"
proof -
  have u: "GetComponentTypeFromString example_itk ''bogus'' = UNKNOWNCOMPONENTTYPE \<or>
           GetComponentTypeFromString example_itk ''bogus'' = OTHERCOMPONENTTYPE"
    by (simp add: example_itk_def spec_tags_def)
  have "main example_itk (example_arguments\<lparr>ScalarType := ''bogus''\<rparr>) example_world =
      (Inr EXIT_FAILURE, example_world\<lparr>cout := cout example_world @ [''unknown component type'']\<rparr>)"
    by (simp add: main_cases dispatch_def DoIt_D_unknown [OF u])
  then show ?thesis
    by (simp add: example_world_def EXIT_FAILURE_def EXIT_SUCCESS_def)
qed

theorem exit_status_witness:
  "main example_itk (example_arguments\<lparr>OutputVolume := []\<rparr>) example_world =
     (Inr EXIT_FAILURE,
      example_world\<lparr>cerr := [''ImageMaker: exception caught !'', ''FileName is empty'']\<rparr>) \<and>
   main example_itk (example_arguments\<lparr>ScalarType := ''bogus''\<rparr>) example_world =
     (Inr EXIT_FAILURE, example_world\<lparr>cout := [''unknown component type'']\<rparr>) \<and>
   main example_itk example_arguments example_world =
     (Inr 0, example_world\<lparr>cout := [''Write Volume''],
                           files := [''out.nrrd'' \<mapsto> ''image'']\<rparr>) \<and>
   fst (main example_itk example_arguments example_world) = Inr 0"
proof -
  let ?rep = "template_instance VectorImage UCHAR 2"
  let ?a = "example_arguments\<lparr>OutputVolume := []\<rparr>"
  have d1: "dispatch example_itk ?a example_world =
      (Inl (Throw (ExceptionObject ''FileName is empty'')), example_world)"
    by (simp add: example_dispatch example_arguments_fields DoIt_image_cases
        example_image_built) (simp add: example_itk_def example_world_def)
  from exit_status [of example_itk ?a example_world] d1
  have "main example_itk ?a example_world =
        (Inr EXIT_FAILURE, example_world\<lparr>cerr := cerr example_world @
           [argv0 ?a @ '': exception caught !'', ''FileName is empty'']\<rparr>)"
    by blast
  then have 1: "main example_itk ?a example_world =
     (Inr EXIT_FAILURE,
      example_world\<lparr>cerr := [''ImageMaker: exception caught !'', ''FileName is empty'']\<rparr>)"
    by (simp add: example_arguments_fields example_world_def)
  let ?b = "example_arguments\<lparr>ScalarType := ''bogus''\<rparr>"
  have u: "GetComponentTypeFromString example_itk (ScalarType ?b)
      \<notin> {UCHAR, CHAR', USHORT, SHORT, UINT, INT', ULONG, LONG, FLOAT, DOUBLE}"
    by (simp add: example_itk_def spec_tags_def)
  from exit_status [of example_itk ?b example_world] u
  have "main example_itk ?b example_world =
        (Inr EXIT_FAILURE, example_world\<lparr>cout := cout example_world @ [''unknown component type'']\<rparr>)"
    by blast
  then have 2: "main example_itk ?b example_world =
     (Inr EXIT_FAILURE, example_world\<lparr>cout := [''unknown component type'']\<rparr>)"
    by (simp add: example_world_def)
  have s: "dispatch example_itk example_arguments example_world =
        DoIt_image example_itk ?rep example_arguments example_world \<and>
      make_image example_itk ?rep example_arguments = Inr example_image \<and>
      thrown (Update example_itk example_image (OutputVolume example_arguments)) = None"
    by (simp add: example_dispatch example_arguments_fields example_image_built)
       (simp add: example_itk_def)
  from exit_status [of example_itk example_arguments example_world] s
  have "fst (main example_itk example_arguments example_world) = Inr EXIT_SUCCESS"
    and "EXIT_SUCCESS = 0" by blast+
  then have 3: "fst (main example_itk example_arguments example_world) = Inr 0" by simp
  have d4: "dispatch example_itk example_arguments example_world =
      (Inr EXIT_SUCCESS, example_world\<lparr>cout := [''Write Volume''],
                           files := [''out.nrrd'' \<mapsto> ''image'']\<rparr>)"
    by (simp add: example_dispatch example_arguments_fields DoIt_image_cases
        example_image_built)
       (simp add: example_itk_def example_world_def example_arguments_fields)
  from exit_status [of example_itk example_arguments example_world] d4
  have "main example_itk example_arguments example_world =
      (Inr EXIT_SUCCESS, example_world\<lparr>cout := [''Write Volume''],
                           files := [''out.nrrd'' \<mapsto> ''image'']\<rparr>)"
    and "EXIT_SUCCESS = 0" by blast+
  then have 4: "main example_itk example_arguments example_world =
      (Inr 0, example_world\<lparr>cout := [''Write Volume''],
                           files := [''out.nrrd'' \<mapsto> ''image'']\<rparr>)" by simp
  from 1 2 3 4 show ?thesis by blast
qed

text \<open>
  C8. The only input of a run that is not one of its parameters is what the freshly
  allocated, uninitialised pixel buffer holds. Two runs on the same arguments that differ
  in it build the same image (or end abnormally at the same place), return the same
  status and leave the same files, the writer of the library being a function of the
  image and the file name.
\<close>

theorem runs_are_deterministic:
  "make_image (lib\<lparr>fresh := g\<rparr>) rep a = make_image lib rep a \<and>
   fst (main (lib\<lparr>fresh := g\<rparr>) a w) = fst (main lib a w) \<and>
   files (snd (main (lib\<lparr>fresh := g\<rparr>) a w)) = files (snd (main lib a w))"
  by (simp add: make_image_fresh main_fresh)

text \<open>
  C9. Whenever \<open>FillValue\<close> has at least one element, the access
  \<open>FillValue[c % FillValue.size()]\<close> of the fill loop is in bounds for every component
  index \<open>c\<close>: the index \<open>c mod length fv\<close> is below the length and the read yields that
  element. The precondition is necessary: on the empty vector the same expression is a
  remainder by zero, the loop of an image with at least one component per pixel ends
  there, and the builder never produces an image.
\<close>

theorem fill_value_access_in_bounds:
  "(fv \<noteq> [] \<longrightarrow>
      (\<forall>c. c mod length fv < length fv \<and> read_FillValue fv c = Inr (fv ! (c mod length fv)))) \<and>
   (\<forall>c. read_FillValue ([] :: 'r list) c = Inl (Undefined DivisionByZero)) \<and>
   (0 < GetNumberOfComponentsPerPixel img \<longrightarrow>
      set_first_pixel lib ([] :: 'r list) img = Inl (Undefined DivisionByZero)) \<and>
   (FillValue a = [] \<longrightarrow> (\<forall>built. make_image lib rep a \<noteq> Inr built))"
proof (intro conjI impI allI)
  fix c assume "fv \<noteq> []"
  then show "c mod length fv < length fv" by simp
  then show "read_FillValue fv c = Inr (fv ! (c mod length fv))"
    using \<open>fv \<noteq> []\<close> by (simp add: read_FillValue_def vector_at_def)
next
  fix c show "read_FillValue ([] :: 'r list) c = Inl (Undefined DivisionByZero)"
    by (simp add: read_FillValue_def)
next
  assume "0 < GetNumberOfComponentsPerPixel img"
  then show "set_first_pixel lib ([] :: 'r list) img = Inl (Undefined DivisionByZero)"
    by (simp add: set_first_pixel_def first_pixel_loop_empty)
next
  fix built assume "FillValue a = []"
  then show "make_image lib rep a \<noteq> Inr built"
    by (simp add: make_image_Inr_iff)
qed

theorem fill_value_access_in_bounds_witness:
  "3 mod length [10, 20 :: int] < length [10, 20 :: int] \<and>
   read_FillValue [10, 20 :: int] 3 = Inr 20 \<and>
   read_FillValue ([] :: int list) 3 = Inl (Undefined DivisionByZero) \<and>
   set_first_pixel example_itk [] example_image = Inl (Undefined DivisionByZero) \<and>
   make_image example_itk (template_instance VectorImage UCHAR 2)
     (example_arguments\<lparr>FillValue := []\<rparr>) \<noteq> Inr example_image"
proof -
  have ne: "[10, 20 :: int] \<noteq> []" by simp
  from fill_value_access_in_bounds [of "[10, 20 :: int]"] ne
  have 1: "3 mod length [10, 20 :: int] < length [10, 20 :: int]"
    and 2: "read_FillValue [10, 20 :: int] 3 = Inr ([10, 20] ! (3 mod length [10, 20 :: int]))"
    by blast+
  from fill_value_access_in_bounds [where 'r = int]
  have 3: "read_FillValue ([] :: int list) 3 = Inl (Undefined DivisionByZero)"
    by blast
  have n: "0 < GetNumberOfComponentsPerPixel example_image"
    by (simp add: GetNumberOfComponentsPerPixel_def example_image_def template_instance_def)
  from fill_value_access_in_bounds [where img = example_image and lib = example_itk] n
  have 4: "set_first_pixel example_itk [] example_image = Inl (Undefined DivisionByZero)"
    by blast
  have e: "FillValue (example_arguments\<lparr>FillValue := []\<rparr>) = []" by simp
  from fill_value_access_in_bounds [where a = "example_arguments\<lparr>FillValue := []\<rparr>"
      and lib = example_itk and rep = "template_instance VectorImage UCHAR 2"] e
  have 5: "make_image example_itk (template_instance VectorImage UCHAR 2)
     (example_arguments\<lparr>FillValue := []\<rparr>) \<noteq> Inr example_image"
    by blast
  have 6: "[10, 20 :: int] ! (3 mod length [10, 20 :: int]) = 20"
    by code_simp
  from 1 2 3 4 5 show ?thesis unfolding 6 by blast
qed

text \<open>
  C10. With a number of components of at most 1, zero and negative numbers included, the
  run is the run for the same arguments with one component: for a recognised scalar type
  the dispatcher runs the builder of the scalar image, the vector length of the image is
  never set, the image has one component per pixel, and every pixel holds the converted
  \<open>FillValue[0]\<close> alone.
\<close>

theorem at_most_one_component:
  fixes lib :: "('r, 's, 'd :: {zero, one}) itk"
  assumes nc: "NumberOfComponents a \<le> 1"
  shows "main lib a w = main lib (a\<lparr>NumberOfComponents := 1\<rparr>) w \<and>
         (\<forall>D t. GetComponentTypeFromString lib (ScalarType a) = t \<and>
                t \<noteq> UNKNOWNCOMPONENTTYPE \<and> t \<noteq> OTHERCOMPONENTTYPE \<longrightarrow>
            DoIt_D lib D a (NumberOfComponents a) (ScalarType a) w =
              DoIt_image lib (template_instance Image t D) a w) \<and>
         (\<forall>rep img. image_class rep = Image \<and> make_image lib rep a = Inr img \<longrightarrow>
            image_class (representation img) = Image \<and> VectorLength img = 0 \<and>
            GetNumberOfComponentsPerPixel img = 1 \<and>
            length (buffer img) = GetNumberOfPixels img \<and>
            (\<forall>p<GetNumberOfPixels img.
               buffer img ! p = convert lib (component_type rep) (FillValue a ! 0)))"
proof -
  have "dispatch lib (a\<lparr>NumberOfComponents := 1\<rparr>) w = dispatch lib a w"
    using nc by (simp add: dispatch_def DoIt_D_at_most_one_component)
  then have 1: "main lib a w = main lib (a\<lparr>NumberOfComponents := 1\<rparr>) w"
    by (simp add: main_def split: prod.splits sum.splits abnormal.splits exception.splits)
  have 2: "DoIt_D lib D a (NumberOfComponents a) (ScalarType a) w =
      DoIt_image lib (template_instance Image t D) a w"
    if "GetComponentTypeFromString lib (ScalarType a) = t \<and>
          t \<noteq> UNKNOWNCOMPONENTTYPE \<and> t \<noteq> OTHERCOMPONENTTYPE" for D t
  proof -
    from that have "DoIt_D lib D a (NumberOfComponents a) (ScalarType a) w =
        DoIt_image lib (template_instance
          (if 1 < NumberOfComponents a then VectorImage else Image) t D) a w"
      by (intro DoIt_D_recognized) simp_all
    with nc show ?thesis by simp
  qed
  have 3: "image_class (representation img) = Image \<and> VectorLength img = 0 \<and>
            GetNumberOfComponentsPerPixel img = 1 \<and>
            length (buffer img) = GetNumberOfPixels img \<and>
            (\<forall>p<GetNumberOfPixels img.
               buffer img ! p = convert lib (component_type rep) (FillValue a ! 0))"
    if h: "image_class rep = Image \<and> make_image lib rep a = Inr img"
    for rep and img :: "('s, 'd) itk_image"
  proof (intro conjI)
  let ?N = "prod_list (map SizeValueType_of_int (take (ImageDimension rep) (Size a)))"
  let ?x = "convert lib (component_type rep) (FillValue a ! 0)"
  from h have cls: "image_class rep = Image" and b: "make_image lib rep a = Inr img"
    by simp_all
  from b [unfolded make_image_Inr_iff] cls
  have r: "representation img = rep" and vl: "VectorLength img = 0"
    and sz: "region_size img = map SizeValueType_of_int (take (ImageDimension rep) (Size a))"
    and buf: "buffer img = concat (replicate ?N [?x])"
    by simp_all
  show "image_class (representation img) = Image" by (simp add: r cls)
  show "VectorLength img = 0" by (rule vl)
  show "GetNumberOfComponentsPerPixel img = 1"
    by (simp add: GetNumberOfComponentsPerPixel_def r cls)
  have np: "GetNumberOfPixels img = ?N" by (simp add: GetNumberOfPixels_def sz)
  show "length (buffer img) = GetNumberOfPixels img"
    by (simp add: buf np length_concat_replicate)
  show "\<forall>p<GetNumberOfPixels img. buffer img ! p = ?x"
  proof (intro allI impI)
    fix p assume "p < GetNumberOfPixels img"
    then have "p < ?N" by (simp add: np)
    from concat_replicate_nth [OF this, of 0 "[?x]"] show "buffer img ! p = ?x"
      by (simp add: buf)
  qed
  qed
  from 1 2 3 show ?thesis by blast
qed

theorem at_most_one_component_witness:
  "main example_itk (example_arguments\<lparr>NumberOfComponents := - 4\<rparr>) example_world =
     main example_itk (example_arguments\<lparr>NumberOfComponents := 1\<rparr>) example_world \<and>
   DoIt_D example_itk 2 (example_arguments\<lparr>NumberOfComponents := - 4\<rparr>) (- 4) ''uchar''
       example_world =
     DoIt_image example_itk (template_instance Image UCHAR 2)
       (example_arguments\<lparr>NumberOfComponents := - 4\<rparr>) example_world \<and>
   (\<exists>img. make_image example_itk (template_instance Image UCHAR 2)
            (example_arguments\<lparr>NumberOfComponents := - 4\<rparr>) = Inr img \<and>
          VectorLength img = 0 \<and> GetNumberOfComponentsPerPixel img = 1 \<and>
          GetNumberOfPixels img = 4 \<and> length (buffer img) = 4 \<and> buffer img ! 3 = 10)"
proof -
  let ?a = "example_arguments\<lparr>NumberOfComponents := - 4\<rparr>"
  let ?rep = "template_instance Image UCHAR 2"
  let ?img = "\<lparr>representation = ?rep, VectorLength = 0,
      region_index = [0, 0], region_size = [2, 2], buffer = [10, 10, 10, 10],
      spacing = [1, 1], origin = [0, 0], direction = [[1, 0], [0, 1]]\<rparr> :: (int, int) itk_image"
  have nc: "NumberOfComponents ?a \<le> 1" by simp
  have b: "make_image example_itk ?rep ?a = Inr ?img"
    by (simp add: make_image_Inr_iff example_itk_def example_arguments_def
        template_instance_def SizeValueType_of_int_2 upt_0_2 replicate_4 replicate_2 numeral_2_eq_2 [symmetric])
  have np: "GetNumberOfPixels ?img = 4" by (simp add: GetNumberOfPixels_def)
  have t: "GetComponentTypeFromString example_itk (ScalarType ?a) = UCHAR \<and>
      UCHAR \<noteq> UNKNOWNCOMPONENTTYPE \<and> UCHAR \<noteq> OTHERCOMPONENTTYPE"
    by (simp add: example_itk_def example_arguments_def spec_tags_def)
  have c: "image_class ?rep = Image \<and> make_image example_itk ?rep ?a = Inr ?img"
    using b by (simp add: template_instance_def)
  note r = at_most_one_component [OF nc, of example_itk example_world]
  from r have 1: "main example_itk ?a example_world =
      main example_itk (?a\<lparr>NumberOfComponents := 1\<rparr>) example_world" by blast
  from r have "\<forall>D t. GetComponentTypeFromString example_itk (ScalarType ?a) = t \<and>
                t \<noteq> UNKNOWNCOMPONENTTYPE \<and> t \<noteq> OTHERCOMPONENTTYPE \<longrightarrow>
            DoIt_D example_itk D ?a (NumberOfComponents ?a) (ScalarType ?a) example_world =
              DoIt_image example_itk (template_instance Image t D) ?a example_world"
    by blast
  from this [rule_format, OF t, of 2]
  have 2: "DoIt_D example_itk 2 ?a (NumberOfComponents ?a) (ScalarType ?a) example_world =
      DoIt_image example_itk ?rep ?a example_world" .
  from r have "\<forall>rep img. image_class rep = Image \<and> make_image example_itk rep ?a = Inr img \<longrightarrow>
            image_class (representation img) = Image \<and> VectorLength img = 0 \<and>
            GetNumberOfComponentsPerPixel img = 1 \<and>
            length (buffer img) = GetNumberOfPixels img \<and>
            (\<forall>p<GetNumberOfPixels img.
               buffer img ! p = convert example_itk (component_type rep) (FillValue ?a ! 0))"
    by blast
  from this [rule_format, OF c]
  have 3: "VectorLength ?img = 0" "GetNumberOfComponentsPerPixel ?img = 1"
    "length (buffer ?img) = GetNumberOfPixels ?img"
    and 4: "\<forall>p<GetNumberOfPixels ?img.
       buffer ?img ! p = convert example_itk (component_type ?rep) (FillValue ?a ! 0)"
    by blast+
  from 4 [rule_format, of 3] np
  have "buffer ?img ! 3 = convert example_itk (component_type ?rep) (FillValue ?a ! 0)"
    by simp
  also have "\<dots> = 10"
    by (simp add: example_itk_def example_arguments_def template_instance_def)
  finally have 5: "buffer ?img ! 3 = 10" .
  have s: "NumberOfComponents ?a = - 4" "ScalarType ?a = ''uchar''"
    "?a\<lparr>NumberOfComponents := 1\<rparr> = example_arguments\<lparr>NumberOfComponents := 1\<rparr>"
    by (simp_all add: example_arguments_def)
  from 3(3) np have l: "length (buffer ?img) = 4" by simp
  from b 3(1,2) np l 5
  have e: "\<exists>img. make_image example_itk ?rep ?a = Inr img \<and>
          VectorLength img = 0 \<and> GetNumberOfComponentsPerPixel img = 1 \<and>
          GetNumberOfPixels img = 4 \<and> length (buffer img) = 4 \<and> buffer img ! 3 = 10"
    by blast
  from 1 2 e show ?thesis unfolding s by blast
qed

end
